theory Spec2Isabelle
  imports Main "HOL-Library.Word"
begin

unbundle bit_operations_syntax

section \<open>Lua values, errors and the interpreter state\<close>

text \<open>
  glib.c is written against the Lua 5.1 C API and against GLib. Both are libraries outside
  the repository; the part of each that glib.c calls is modelled by its documented contract.

  A Lua value is one of the nine Lua types. Tables, functions, userdata and threads are
  identified by a number. Lua numbers are doubles; the model carries the integral ones
  (the \<open>lua_Integer\<close> values that glib.c reads with \<open>luaL_checkinteger\<close> and writes with
  \<open>lua_pushinteger\<close>).
\<close>

datatype lua_value =
    LNil
  | LBoolean bool
  | LLightUserdata nat
  | LNumber int
  | LString string
  | LTable nat
  | LFunction nat
  | LUserdata nat
  | LThread nat

text \<open>
  A Lua error is a non-local exit (\<open>longjmp\<close>) to the nearest protected call. The functions
  of the auxiliary library that raise never return to their caller, so every raise is the
  \<open>Inl\<close> branch of a result and the code after it is not run.
  \<^item> \<open>LuaError m\<close>: \<open>luaL_error\<close> with the formatted message \<open>m\<close> (the position prefix that
    \<open>luaL_where\<close> may put in front of it belongs to the calling Lua chunk and is left out);
  \<^item> \<open>TypeError narg expected actual\<close>: \<open>luaL_typerror\<close>;
  \<^item> \<open>ArgError narg msg\<close>: \<open>luaL_argerror\<close>;
  \<^item> \<open>StackOverflow msg\<close>: \<open>luaL_checkstack\<close>.
\<close>

datatype lua_error =
    LuaError string
  | TypeError int string string
  | ArgError int string
  | StackOverflow string

text \<open>
  The state reached through \<open>lua_State *L\<close>: the value stack of the running function (bottom
  first), the array part of the registry (a reference \<open>r\<close> made by \<open>luaL_ref\<close> is slot
  \<open>r - 1\<close>), and the slot \<open>registry[lgi_regkey][LGI_REG_LOG_HANDLER]\<close> that \<open>log_handler\<close>
  reads. Three traces record what leaves the interpreter: the protected calls made (target
  and arguments), the events handed to \<open>g_log\<close>, and the events handed to
  \<open>g_log_default_handler\<close>.
\<close>

record lua_State =
  thread_id :: nat
  stack :: "lua_value list"
  registry :: "lua_value list"
  reg_log_handler :: lua_value
  pcalls :: "(lua_value \<times> lua_value list) list"
  g_log_emitted :: "(string \<times> int \<times> string) list"
  g_log_default_handled :: "(string option \<times> int \<times> string) list"

text \<open>
  What running a Lua value as a function does is not decided by glib.c: the outcome of a call
  is a parameter. \<open>lua_pcall\<close> reports a failed call by a status: \<open>LUA_ERRRUN\<close> when the callee
  raised an error, \<open>LUA_ERRMEM\<close> and \<open>LUA_ERRERR\<close> for failures of the allocator and of the
  error handler.
\<close>

datatype pcall_status = ERRRUN | ERRMEM | ERRERR

datatype call_outcome =
    CallReturns "lua_value list"
  | CallFails pcall_status lua_value

definition LUA_ERRRUN :: int where "LUA_ERRRUN = 2"
definition LUA_ERRMEM :: int where "LUA_ERRMEM = 4"
definition LUA_ERRERR :: int where "LUA_ERRERR = 5"

fun status_code :: "pcall_status \<Rightarrow> int" where
  "status_code ERRRUN = LUA_ERRRUN"
| "status_code ERRMEM = LUA_ERRMEM"
| "status_code ERRERR = LUA_ERRERR"

text \<open>
  The parts of the Lua implementation taken as parameters: the behaviour of callables and
  the two conversions between numbers and their text (\<open>lua_number2str\<close>, \<open>lua_str2number\<close>
  of luaconf.h), which Lua applies when a number is read as a string and a string as a
  number.
\<close>

record lua_impl =
  lua_call :: "lua_value \<Rightarrow> lua_value list \<Rightarrow> call_outcome"
  lua_number2str :: "int \<Rightarrow> string"
  lua_str2number :: "string \<Rightarrow> int option"

subsection \<open>Stack access\<close>

definition LUA_TNONE :: int where "LUA_TNONE = - 1"
definition LUA_TNIL :: int where "LUA_TNIL = 0"
definition LUA_TBOOLEAN :: int where "LUA_TBOOLEAN = 1"
definition LUA_TLIGHTUSERDATA :: int where "LUA_TLIGHTUSERDATA = 2"
definition LUA_TNUMBER :: int where "LUA_TNUMBER = 3"
definition LUA_TSTRING :: int where "LUA_TSTRING = 4"
definition LUA_TTABLE :: int where "LUA_TTABLE = 5"
definition LUA_TFUNCTION :: int where "LUA_TFUNCTION = 6"
definition LUA_TUSERDATA :: int where "LUA_TUSERDATA = 7"
definition LUA_TTHREAD :: int where "LUA_TTHREAD = 8"

fun value_type :: "lua_value \<Rightarrow> int" where
  "value_type LNil = LUA_TNIL"
| "value_type (LBoolean b) = LUA_TBOOLEAN"
| "value_type (LLightUserdata p) = LUA_TLIGHTUSERDATA"
| "value_type (LNumber n) = LUA_TNUMBER"
| "value_type (LString s) = LUA_TSTRING"
| "value_type (LTable t) = LUA_TTABLE"
| "value_type (LFunction f) = LUA_TFUNCTION"
| "value_type (LUserdata u) = LUA_TUSERDATA"
| "value_type (LThread t) = LUA_TTHREAD"

definition lua_typename :: "int \<Rightarrow> string" where
  "lua_typename t =
     (if t = LUA_TNONE then ''no value''
      else if t = LUA_TNIL then ''nil''
      else if t = LUA_TBOOLEAN then ''boolean''
      else if t = LUA_TLIGHTUSERDATA then ''userdata''
      else if t = LUA_TNUMBER then ''number''
      else if t = LUA_TSTRING then ''string''
      else if t = LUA_TTABLE then ''table''
      else if t = LUA_TFUNCTION then ''function''
      else if t = LUA_TUSERDATA then ''userdata''
      else if t = LUA_TTHREAD then ''thread''
      else ''no value'')"

text \<open>
  A stack index: positive indices count from the bottom (1 is the first slot), negative
  ones from the top (-1 is the last). An index outside the stack holds no value. Pseudo
  indices are not stack slots and are handled where glib.c uses one.
\<close>

definition slot_of :: "lua_State \<Rightarrow> int \<Rightarrow> nat option" where
  "slot_of L idx =
     (let n = int (length (stack L))
      in if 0 < idx \<and> idx \<le> n then Some (nat (idx - 1))
         else if idx < 0 \<and> - idx \<le> n then Some (nat (n + idx))
         else None)"

definition lua_index :: "lua_State \<Rightarrow> int \<Rightarrow> lua_value option" where
  "lua_index L idx = (case slot_of L idx of None \<Rightarrow> None | Some i \<Rightarrow> Some (stack L ! i))"

definition lua_type :: "lua_State \<Rightarrow> int \<Rightarrow> int" where
  "lua_type L idx = (case lua_index L idx of None \<Rightarrow> LUA_TNONE | Some v \<Rightarrow> value_type v)"

definition luaL_typename :: "lua_State \<Rightarrow> int \<Rightarrow> string" where
  "luaL_typename L idx = lua_typename (lua_type L idx)"

definition lua_isnil :: "lua_State \<Rightarrow> int \<Rightarrow> bool" where
  "lua_isnil L idx = (lua_type L idx = LUA_TNIL)"

definition lua_isnoneornil :: "lua_State \<Rightarrow> int \<Rightarrow> bool" where
  "lua_isnoneornil L idx = (lua_type L idx \<le> 0)"

definition lua_toboolean :: "lua_State \<Rightarrow> int \<Rightarrow> bool" where
  "lua_toboolean L idx =
     (case lua_index L idx of
        None \<Rightarrow> False
      | Some LNil \<Rightarrow> False
      | Some (LBoolean b) \<Rightarrow> b
      | Some _ \<Rightarrow> True)"

definition lua_push :: "lua_State \<Rightarrow> lua_value \<Rightarrow> lua_State" where
  "lua_push L v = L\<lparr>stack := stack L @ [v]\<rparr>"

text \<open>\<open>lua_pushstring\<close> pushes nil for a NULL pointer.\<close>

definition lua_pushstring :: "lua_State \<Rightarrow> string option \<Rightarrow> lua_State" where
  "lua_pushstring L s = lua_push L (case s of None \<Rightarrow> LNil | Some t \<Rightarrow> LString t)"

definition lua_pushinteger :: "lua_State \<Rightarrow> int \<Rightarrow> lua_State" where
  "lua_pushinteger L n = lua_push L (LNumber n)"

definition lua_pushthread :: "lua_State \<Rightarrow> lua_State" where
  "lua_pushthread L = lua_push L (LThread (thread_id L))"

text \<open>\<open>lua_pushvalue\<close> copies the slot; an index above the top reads as nil.\<close>

definition lua_pushvalue :: "lua_State \<Rightarrow> int \<Rightarrow> lua_State" where
  "lua_pushvalue L idx = lua_push L (case lua_index L idx of None \<Rightarrow> LNil | Some v \<Rightarrow> v)"

text \<open>
  \<open>lua_pop (L, n)\<close> drops the \<open>n\<close> values on top. The API requires that they exist; with
  fewer the model leaves the stack empty.
\<close>

definition lua_pop :: "lua_State \<Rightarrow> nat \<Rightarrow> lua_State" where
  "lua_pop L n = L\<lparr>stack := take (length (stack L) - n) (stack L)\<rparr>"

subsection \<open>The registry\<close>

text \<open>
  \<open>lua_rawgeti (L, LUA_REGISTRYINDEX, r)\<close> pushes the registry's slot \<open>r\<close>, nil when empty.
\<close>

definition registry_get :: "lua_State \<Rightarrow> int \<Rightarrow> lua_value" where
  "registry_get L r =
     (if 0 < r \<and> r \<le> int (length (registry L)) then registry L ! nat (r - 1) else LNil)"

definition lua_rawgeti_registry :: "lua_State \<Rightarrow> int \<Rightarrow> lua_State" where
  "lua_rawgeti_registry L r = lua_push L (registry_get L r)"

text \<open>
  \<open>luaL_ref (L, LUA_REGISTRYINDEX)\<close> pops the top value and stores it under a key not in
  use, which it returns; for nil it stores nothing and returns \<open>LUA_REFNIL\<close>. The key is
  the next array slot (Lua also reuses released slots through a free list; only the
  freshness of the key is part of the contract). \<open>luaL_unref\<close> empties the slot.
\<close>

definition LUA_REFNIL :: int where "LUA_REFNIL = - 1"

definition luaL_ref :: "lua_State \<Rightarrow> int \<times> lua_State" where
  "luaL_ref L =
     (case lua_index L (- 1) of
        None \<Rightarrow> (LUA_REFNIL, L)
      | Some LNil \<Rightarrow> (LUA_REFNIL, lua_pop L 1)
      | Some v \<Rightarrow> (int (length (registry L)) + 1, (lua_pop L 1)\<lparr>registry := registry L @ [v]\<rparr>))"

definition luaL_unref :: "lua_State \<Rightarrow> int \<Rightarrow> lua_State" where
  "luaL_unref L r =
     (if 0 < r \<and> r \<le> int (length (registry L))
      then L\<lparr>registry := (registry L)[nat (r - 1) := LNil]\<rparr> else L)"

subsection \<open>Protected calls\<close>

text \<open>
  \<open>lua_pcall (L, nargs, 1, 0)\<close>: the \<open>nargs\<close> values on top are the arguments, the value
  below them is called. The function and the arguments are removed; on success exactly one
  result is pushed (the first one returned, nil when there is none), on failure the error
  value is pushed and the status returned. The API requires \<open>nargs + 1\<close> values on the
  stack; with fewer, the model calls nil with the values there are.
\<close>

definition pcall_target :: "lua_State \<Rightarrow> nat \<Rightarrow> lua_value" where
  "pcall_target L nargs =
     (if nargs + 1 \<le> length (stack L) then stack L ! (length (stack L) - nargs - 1) else LNil)"

definition pcall_args :: "lua_State \<Rightarrow> nat \<Rightarrow> lua_value list" where
  "pcall_args L nargs = drop (length (stack L) - nargs) (stack L)"

definition lua_pcall :: "lua_impl \<Rightarrow> lua_State \<Rightarrow> nat \<Rightarrow> int \<times> lua_State" where
  "lua_pcall impl L nargs =
     (let f = pcall_target L nargs;
          args = pcall_args L nargs;
          L' = (lua_pop L (nargs + 1))\<lparr>pcalls := pcalls L @ [(f, args)]\<rparr>
      in case lua_call impl f args of
           CallReturns rs \<Rightarrow> (0, lua_push L' (case rs of [] \<Rightarrow> LNil | r # _ \<Rightarrow> r))
         | CallFails st e \<Rightarrow> (status_code st, lua_push L' e))"

subsection \<open>Auxiliary library\<close>

text \<open>
  A C string ends at its first NUL: what a \<open>const char *\<close> taken from a Lua string shows.
\<close>

definition c_str :: "string \<Rightarrow> string" where
  "c_str s = takeWhile (\<lambda>c. c \<noteq> CHR 0x00) s"

text \<open>
  \<open>luaL_checkstring\<close> accepts a string or a number; a number is converted to its text in
  place. Anything else raises a type error.
\<close>

definition luaL_checkstring :: "lua_impl \<Rightarrow> lua_State \<Rightarrow> int \<Rightarrow> (lua_error + string) \<times> lua_State" where
  "luaL_checkstring impl L narg =
     (case slot_of L narg of
        None \<Rightarrow> (Inl (TypeError narg (lua_typename LUA_TSTRING) (luaL_typename L narg)), L)
      | Some i \<Rightarrow>
          (case stack L ! i of
             LString s \<Rightarrow> (Inr (c_str s), L)
           | LNumber n \<Rightarrow>
               (Inr (c_str (lua_number2str impl n)),
                L\<lparr>stack := (stack L)[i := LString (lua_number2str impl n)]\<rparr>)
           | _ \<Rightarrow> (Inl (TypeError narg (lua_typename LUA_TSTRING) (luaL_typename L narg)), L)))"

text \<open>
  \<open>luaL_checkinteger\<close> accepts a number, or a string that reads as one.
\<close>

definition luaL_checkinteger :: "lua_impl \<Rightarrow> lua_State \<Rightarrow> int \<Rightarrow> lua_error + int" where
  "luaL_checkinteger impl L narg =
     (case lua_index L narg of
        Some (LNumber n) \<Rightarrow> Inr n
      | Some (LString s) \<Rightarrow>
          (case lua_str2number impl s of
             Some n \<Rightarrow> Inr n
           | None \<Rightarrow> Inl (TypeError narg (lua_typename LUA_TNUMBER) (luaL_typename L narg)))
      | _ \<Rightarrow> Inl (TypeError narg (lua_typename LUA_TNUMBER) (luaL_typename L narg)))"

text \<open>
  \<open>luaL_checkoption (L, narg, def, lst)\<close>: the name is \<open>def\<close> when the argument is absent or
  nil, else \<open>luaL_checkstring\<close> of it; the result is the index of the first entry of the
  NULL-terminated array \<open>lst\<close> equal to the name, and an argument error when none is.
\<close>

fun option_index :: "string list \<Rightarrow> string \<Rightarrow> nat \<Rightarrow> nat option" where
  "option_index [] name i = None"
| "option_index (x # xs) name i = (if x = name then Some i else option_index xs name (Suc i))"

definition luaL_checkoption ::
  "lua_impl \<Rightarrow> lua_State \<Rightarrow> int \<Rightarrow> string \<Rightarrow> string list \<Rightarrow> (lua_error + nat) \<times> lua_State" where
  "luaL_checkoption impl L narg def lst =
     (case (if lua_isnoneornil L narg then (Inr def, L) else luaL_checkstring impl L narg) of
        (Inl e, L') \<Rightarrow> (Inl e, L')
      | (Inr name, L') \<Rightarrow>
          (case option_index lst name 0 of
             Some i \<Rightarrow> (Inr i, L')
           | None \<Rightarrow> (Inl (ArgError narg (''invalid option '' @ [CHR 0x27] @ name @ [CHR 0x27])), L')))"

text \<open>
  \<open>luaL_error\<close> and \<open>luaL_typerror\<close> always raise. \<open>lua_then\<close> runs the code that follows a
  call that may raise: it is skipped when the call raised.
\<close>

definition luaL_error :: "lua_State \<Rightarrow> string \<Rightarrow> (lua_error + 'a) \<times> lua_State" where
  "luaL_error L msg = (Inl (LuaError msg), L)"

definition luaL_typerror :: "lua_State \<Rightarrow> int \<Rightarrow> string \<Rightarrow> (lua_error + 'a) \<times> lua_State" where
  "luaL_typerror L narg tname = (Inl (TypeError narg tname (luaL_typename L narg)), L)"

definition lua_then ::
  "(lua_error + 'a) \<times> lua_State \<Rightarrow> ('a \<Rightarrow> lua_State \<Rightarrow> (lua_error + 'b) \<times> lua_State)
     \<Rightarrow> (lua_error + 'b) \<times> lua_State" where
  "lua_then r k = (case r of (Inl e, L) \<Rightarrow> (Inl e, L) | (Inr x, L) \<Rightarrow> k x L)"

text \<open>
  \<open>luaL_checkstack (L, space, msg)\<close> raises when the stack cannot grow by \<open>space\<close> slots:
  a C function may hold at most \<open>LUAI_MAXCSTACK\<close> slots (8000 in the stock luaconf.h).
\<close>

definition LUAI_MAXCSTACK :: int where "LUAI_MAXCSTACK = 8000"

definition luaL_checkstack :: "lua_State \<Rightarrow> int \<Rightarrow> string \<Rightarrow> (lua_error + unit) \<times> lua_State" where
  "luaL_checkstack L space msg =
     (if space > LUAI_MAXCSTACK \<or> int (length (stack L)) + space > LUAI_MAXCSTACK
      then (Inl (StackOverflow (''stack overflow ('' @ msg @ '')'')), L)
      else (Inr (), L))"

text \<open>Decimal text of a C int, as \<open>%d\<close> prints it.\<close>

definition digit :: "nat \<Rightarrow> char" where
  "digit d = ''0123456789'' ! d"

fun show_nat :: "nat \<Rightarrow> string" where
  "show_nat n = (if n < 10 then [digit n] else show_nat (n div 10) @ [digit (n mod 10)])"

definition show_int :: "int \<Rightarrow> string" where
  "show_int i = (if i < 0 then ''-'' @ show_nat (nat (- i)) else show_nat (nat i))"

section \<open>Diagnostic bridge\<close>

text \<open>
  GLib's log levels (gmessages.h): two flag bits, then one bit per level.
\<close>

definition G_LOG_FLAG_RECURSION :: int where "G_LOG_FLAG_RECURSION = 1"
definition G_LOG_FLAG_FATAL :: int where "G_LOG_FLAG_FATAL = 2"
definition G_LOG_LEVEL_ERROR :: int where "G_LOG_LEVEL_ERROR = 4"
definition G_LOG_LEVEL_CRITICAL :: int where "G_LOG_LEVEL_CRITICAL = 8"
definition G_LOG_LEVEL_WARNING :: int where "G_LOG_LEVEL_WARNING = 16"
definition G_LOG_LEVEL_MESSAGE :: int where "G_LOG_LEVEL_MESSAGE = 32"
definition G_LOG_LEVEL_INFO :: int where "G_LOG_LEVEL_INFO = 64"
definition G_LOG_LEVEL_DEBUG :: int where "G_LOG_LEVEL_DEBUG = 128"

text \<open>The array \<open>log_levels\<close>; the end of the list is its NULL terminator.\<close>

definition log_levels :: "string list" where
  "log_levels = [''ERROR'', ''CRITICAL'', ''WARNING'', ''MESSAGE'', ''INFO'', ''DEBUG'', ''???'']"

text \<open>
  The loop of \<open>log_handler\<close> that converts \<open>log_level\<close> to a name. \<open>level_bit\<close> and \<open>level\<close>
  advance together: before the test number \<open>k\<close> (from 0), \<open>level_bit\<close> is
  \<open>G_LOG_LEVEL_ERROR << k\<close> and \<open>level\<close> is \<open>log_levels + k\<close>. The result is the value of \<open>k\<close>
  at which the loop stops.
\<close>

function level_scan :: "int \<Rightarrow> nat \<Rightarrow> nat" where
  "level_scan log_level k =
     (if push_bit k G_LOG_LEVEL_ERROR \<le> G_LOG_LEVEL_DEBUG
      then if log_level AND push_bit k G_LOG_LEVEL_ERROR \<noteq> 0 then k
           else level_scan log_level (Suc k)
      else k)"
  by pat_completeness auto
termination
proof (relation "measure (\<lambda>(l, k). 6 - k)")
  show "wf (measure (\<lambda>(l, k). 6 - k))" by simp
next
  fix log_level :: int and k :: nat
  assume le: "push_bit k G_LOG_LEVEL_ERROR \<le> G_LOG_LEVEL_DEBUG"
  have "k < 6"
  proof (rule ccontr)
    assume "\<not> k < 6"
    then have "(2::int) ^ 6 \<le> 2 ^ k" by (intro power_increasing) auto
    with le show False
      by (simp add: push_bit_eq_mult G_LOG_LEVEL_ERROR_def G_LOG_LEVEL_DEBUG_def)
  qed
  then show "((log_level, Suc k), (log_level, k)) \<in> measure (\<lambda>(l, k). 6 - k)" by simp
qed

text \<open>The equation of the loop is unfolded by hand, one test at a time.\<close>

declare level_scan.simps [simp del]

definition level_name :: "int \<Rightarrow> string" where
  "level_name log_level = log_levels ! level_scan log_level 0"

text \<open>
  \<open>g_log_default_handler\<close> is GLib's own handler (it prints the event); the model records
  the event it is given.
\<close>

definition g_log_default_handler :: "lua_State \<Rightarrow> string option \<Rightarrow> int \<Rightarrow> string \<Rightarrow> lua_State" where
  "g_log_default_handler L log_domain log_level message =
     L\<lparr>g_log_default_handled := g_log_default_handled L @ [(log_domain, log_level, message)]\<rparr>"

text \<open>\<open>%s\<close> of a \<open>const gchar *\<close> in \<open>luaL_error\<close>: a NULL pointer prints as \<open>(null)\<close>.\<close>

definition fmt_s :: "string option \<Rightarrow> string" where
  "fmt_s s = (case s of None \<Rightarrow> ''(null)'' | Some t \<Rightarrow> t)"

text \<open>
  \<open>log_handler\<close>: the handler that \<open>lgi_glib_init\<close> registers with GLib. \<open>log_level\<close> is a
  \<open>GLogLevelFlags\<close>, a C int; \<open>log_domain\<close> may be NULL (GLib's default domain). The two
  \<open>lua_rawgeti\<close> calls push lgi's registry table and its \<open>LGI_REG_LOG_HANDLER\<close> slot; the
  table is an opaque value here. \<open>call_log_handler\<close> is the statement
  \<open>if (!lua_isnil (L, -1)) { ... }\<close>: it yields the two flags \<open>handled\<close> and \<open>throw\<close> as the
  statement leaves them.
\<close>

definition lgi_registry_table :: lua_value where
  "lgi_registry_table = LTable 0"

definition call_log_handler ::
  "lua_impl \<Rightarrow> lua_State \<Rightarrow> string option \<Rightarrow> string \<Rightarrow> string \<Rightarrow> (bool \<times> bool) \<times> lua_State" where
  "call_log_handler impl L log_domain level message =
     (if \<not> lua_isnil L (- 1) then
        (let L1 = lua_pushstring L log_domain;
             L2 = lua_pushstring L1 (Some level);
             L3 = lua_pushstring L2 (Some message);
             (res, L4) = lua_pcall impl L3 3
         in if res = 0 then ((lua_toboolean L4 (- 1), False), L4)
            else if res = LUA_ERRRUN then ((False, True), L4)
            else ((False, False), L4))
      else ((False, False), L))"

definition log_handler ::
  "lua_impl \<Rightarrow> lua_State \<Rightarrow> string option \<Rightarrow> int \<Rightarrow> string \<Rightarrow> (lua_error + unit) \<times> lua_State" where
  "log_handler impl L log_domain log_level message =
     (let level = level_name log_level;
          L1 = lua_push L lgi_registry_table;
          L2 = lua_push L1 (reg_log_handler L1);
          ((handled, throw), L3) = call_log_handler impl L2 log_domain level message;
          L4 = lua_pop L3 2
      in lua_then
           (if throw \<or> log_level AND (G_LOG_FLAG_FATAL OR G_LOG_LEVEL_ERROR) \<noteq> 0
            then luaL_error L4 (fmt_s log_domain @ ''-'' @ level @ '' **: '' @ message)
            else (Inr (), L4))
           (\<lambda>_ L5.
              if \<not> handled then (Inr (), g_log_default_handler L5 log_domain log_level message)
              else (Inr (), L5)))"

text \<open>
  \<open>lgi_glib_init\<close> makes \<open>log_handler\<close> the default handler of GLib's log, and glib.c
  installs no handler for a single domain: an event given to \<open>g_log\<close> is recorded and handed
  to \<open>log_handler\<close>, with the domain and the level it was given. When \<open>log_handler\<close> raises,
  the Lua error leaves \<open>g_log\<close> and the function that called it. (GLib marks an ERROR event
  with the fatal flag before it calls the handler; \<open>log_handler\<close> raises for the ERROR bit
  itself, so the flag changes nothing here. GLib's bookkeeping of nested log calls is not
  modelled.)
\<close>

definition g_log ::
  "lua_impl \<Rightarrow> lua_State \<Rightarrow> string \<Rightarrow> int \<Rightarrow> string \<Rightarrow> (lua_error + unit) \<times> lua_State" where
  "g_log impl L log_domain log_level message =
     log_handler impl
       (L\<lparr>g_log_emitted := g_log_emitted L @ [(log_domain, log_level, message)]\<rparr>)
       (Some log_domain) log_level message"

text \<open>
  \<open>lgi_glib_log\<close>: the Lua-callable entry point. Its arguments are the stack of the call.
  It returns 0 when \<open>g_log\<close> returns.
\<close>

definition lgi_glib_log :: "lua_impl \<Rightarrow> lua_State \<Rightarrow> (lua_error + int) \<times> lua_State" where
  "lgi_glib_log impl L =
     lua_then (luaL_checkstring impl L 1) (\<lambda>domain L1.
     lua_then (luaL_checkoption impl L1 2 (log_levels ! 5) log_levels) (\<lambda>opt L2.
     lua_then (luaL_checkstring impl L2 3) (\<lambda>message L3.
     lua_then (g_log impl L3 domain (push_bit (opt + 2) 1) message) (\<lambda>u L4.
       (Inr 0, L4)))))"



section \<open>Typed value boxes and type metadata\<close>

text \<open>
  A \<open>GType\<close> is a number; the fundamental types are GLib's constants (gtype.h,
  \<open>G_TYPE_MAKE_FUNDAMENTAL (n) = n << 2\<close>).
\<close>

type_synonym GType = nat

definition G_TYPE_INVALID :: GType where "G_TYPE_INVALID = 0"
definition G_TYPE_NONE :: GType where "G_TYPE_NONE = 4"
definition G_TYPE_BOOLEAN :: GType where "G_TYPE_BOOLEAN = 20"
definition G_TYPE_INT :: GType where "G_TYPE_INT = 24"
definition G_TYPE_ENUM :: GType where "G_TYPE_ENUM = 48"
definition G_TYPE_FLAGS :: GType where "G_TYPE_FLAGS = 52"
definition G_TYPE_STRING :: GType where "G_TYPE_STRING = 64"
definition G_TYPE_BOXED :: GType where "G_TYPE_BOXED = 72"
definition G_TYPE_OBJECT :: GType where "G_TYPE_OBJECT = 80"

text \<open>
  The value a box holds, and the C value that the conversion functions pass around:
  nothing yet (\<open>CNone\<close>, the zeroed storage after \<open>g_value_init\<close>), a boolean, an integer,
  a string or a pointer (an address).
\<close>

datatype cvalue = CNone | CBoolean bool | CInteger int | CString string | CPointer nat

record GValue =
  g_type :: GType
  g_data :: cvalue

text \<open>
  \<open>g_value_set_enum\<close> takes a \<open>gint\<close> and \<open>g_value_set_flags\<close> a \<open>guint\<close>: the \<open>lua_Integer\<close>
  they are given is cut to 32 bits. \<open>g_value_set_object\<close> keeps the address it is given,
  \<open>g_value_set_boxed\<close> the address of a copy; \<open>g_value_dup_object\<close> returns the address
  held (with one more reference), \<open>g_value_dup_boxed\<close> the address of a copy.
\<close>

definition g_value_set_enum :: "GValue \<Rightarrow> int \<Rightarrow> GValue" where
  "g_value_set_enum val n = val\<lparr>g_data := CInteger (sint (word_of_int n :: 32 word))\<rparr>"

definition g_value_set_flags :: "GValue \<Rightarrow> int \<Rightarrow> GValue" where
  "g_value_set_flags val n = val\<lparr>g_data := CInteger (uint (word_of_int n :: 32 word))\<rparr>"

definition g_value_get_enum :: "GValue \<Rightarrow> int" where
  "g_value_get_enum val = (case g_data val of CInteger n \<Rightarrow> n | _ \<Rightarrow> 0)"

definition g_value_get_flags :: "GValue \<Rightarrow> int" where
  "g_value_get_flags val = (case g_data val of CInteger n \<Rightarrow> n | _ \<Rightarrow> 0)"

definition g_value_set_object :: "GValue \<Rightarrow> nat \<Rightarrow> GValue" where
  "g_value_set_object val p = val\<lparr>g_data := CPointer p\<rparr>"

definition g_value_set_boxed :: "(GType \<Rightarrow> nat \<Rightarrow> nat) \<Rightarrow> GValue \<Rightarrow> nat \<Rightarrow> GValue" where
  "g_value_set_boxed copy val p = val\<lparr>g_data := CPointer (copy (g_type val) p)\<rparr>"

definition g_value_dup_object :: "GValue \<Rightarrow> nat" where
  "g_value_dup_object val = (case g_data val of CPointer p \<Rightarrow> p | _ \<Rightarrow> 0)"

definition g_value_dup_boxed :: "(GType \<Rightarrow> nat \<Rightarrow> nat) \<Rightarrow> GValue \<Rightarrow> nat" where
  "g_value_dup_boxed copy val = (case g_data val of CPointer p \<Rightarrow> copy (g_type val) p | _ \<Rightarrow> 0)"

text \<open>
  What glib.c asks of an introspection descriptor (\<open>GIBaseInfo\<close>) and of a type description
  (\<open>GITypeInfo\<close>): each field is the answer of the accessor it is named after. Type tags are
  the C values of the enum \<open>GITypeTag\<close>; \<open>GI_TYPE_TAG_VOID\<close> is its first member.
\<close>

record GIBaseInfo =
  g_base_info_get_type :: int
  GI_IS_REGISTERED_TYPE_INFO :: bool
  GI_IS_OBJECT_INFO :: bool
  g_registered_type_info_get_g_type :: GType

record GITypeInfo =
  g_type_info_get_tag :: int
  g_type_info_get_interface :: GIBaseInfo

definition GI_TYPE_TAG_VOID :: int where "GI_TYPE_TAG_VOID = 0"

text \<open>
  decltype.h is not in glib.c: it is the table of primitive types, one \<open>DECLTYPE\<close> line
  each, that glib.c includes three times. The table is a parameter. A row keeps the macro
  arguments that glib.c uses: \<open>tag\<close>, \<open>val_type\<close> (called \<open>gtype\<close> in the two later
  expansions), \<open>check\<close>, \<open>push\<close>, \<open>val_get\<close> and \<open>val_set\<close>, and whether the row is still
  there when \<open>DECLTYPE_KEY_BY_GTYPE\<close> is defined. \<open>check (L, narg)\<close> reads the value at
  \<open>narg\<close> and yields a C value or raises; \<open>push (L, x)\<close> pushes one value, the one that
  \<open>row_push\<close> gives for \<open>x\<close>.
\<close>

record decltype_row =
  row_tag :: int
  row_key_by_gtype :: bool
  row_val_type :: GType
  row_check :: "lua_State \<Rightarrow> int \<Rightarrow> lua_error + cvalue"
  row_push :: "cvalue \<Rightarrow> lua_value"
  row_val_get :: "GValue \<Rightarrow> cvalue"
  row_val_set :: "GValue \<Rightarrow> cvalue \<Rightarrow> GValue"

text \<open>
  Everything else that glib.c takes from outside: the Lua implementation, the table, the
  tag of interfaces, GLib's type system (\<open>G_TYPE_IS_VALUE\<close>, \<open>G_TYPE_FUNDAMENTAL\<close>,
  \<open>g_type_name\<close>, which is NULL for an unknown type, and the copy function of boxed types),
  the introspection repository, and lgi's compound wrapper. \<open>lgi_compound_get\<close> yields the
  type and the address of the wrapped object and the values it leaves on the stack, or
  raises; \<open>lgi_compound_create\<close> yields the values it pushes, or raises. Each returns the
  number of those values. \<open>g_value_init_warning\<close> is the text of the warning that GLib's
  \<open>g_value_init\<close> logs, for the type asked for and the type the box has.
\<close>

record env =
  lua :: lua_impl
  decltype :: "decltype_row list"
  GI_TYPE_TAG_INTERFACE :: int
  G_TYPE_IS_VALUE :: "GType \<Rightarrow> bool"
  G_TYPE_FUNDAMENTAL :: "GType \<Rightarrow> GType"
  g_type_name :: "GType \<Rightarrow> string option"
  g_boxed_copy :: "GType \<Rightarrow> nat \<Rightarrow> nat"
  g_irepository_find_by_gtype :: "GType \<Rightarrow> GIBaseInfo option"
  lgi_compound_get :: "lua_State \<Rightarrow> int \<Rightarrow> GType \<Rightarrow> lua_error + (GType \<times> nat \<times> lua_value list)"
  lgi_compound_create :: "lua_State \<Rightarrow> GIBaseInfo \<Rightarrow> nat \<Rightarrow> lua_error + lua_value list"
  g_value_init_warning :: "GType \<Rightarrow> GType \<Rightarrow> string"

text \<open>
  GLib's \<open>g_value_init\<close>: a box that has no type yet (it is zero-filled,
  \<open>G_TYPE_INVALID\<close>) is given a value-bearing type and cleared storage. Otherwise, when
  the box already has a type or the type asked for bears no value, GLib logs a warning
  in its domain \<open>GLib-GObject\<close> and leaves the box as it is; the warning is a log event
  like any other and goes through \<open>g_log\<close>.
\<close>

definition g_value_init ::
  "env \<Rightarrow> lua_State \<Rightarrow> GValue \<Rightarrow> GType \<Rightarrow> (lua_error + unit) \<times> lua_State \<times> GValue" where
  "g_value_init e L val t =
     (if G_TYPE_IS_VALUE e t \<and> g_type val = G_TYPE_INVALID
      then (Inr (), L, val\<lparr>g_type := t, g_data := CNone\<rparr>)
      else case g_log (lua e) L ''GLib-GObject'' G_LOG_LEVEL_WARNING
                  (g_value_init_warning e t (g_type val)) of
             (r, L') \<Rightarrow> (r, L', val))"

text \<open>
  The two ways glib.c goes through the table: the \<open>case\<close> labels of \<open>lgi_value_init\<close> are
  the tags of all rows; the \<open>else if\<close> chains of \<open>lgi_value_load\<close> and \<open>lgi_value_store\<close>
  compare the type of the box with the rows kept under \<open>DECLTYPE_KEY_BY_GTYPE\<close>, in order.
\<close>

definition decltype_by_tag :: "env \<Rightarrow> int \<Rightarrow> decltype_row option" where
  "decltype_by_tag e t = find (\<lambda>r. row_tag r = t) (decltype e)"

definition decltype_by_gtype :: "env \<Rightarrow> GType \<Rightarrow> decltype_row option" where
  "decltype_by_gtype e t =
     find (\<lambda>r. t = row_val_type r) (filter row_key_by_gtype (decltype e))"

section \<open>Value marshaller\<close>

definition lgi_value_init ::
  "env \<Rightarrow> lua_State \<Rightarrow> GValue \<Rightarrow> GITypeInfo \<Rightarrow> (lua_error + unit) \<times> lua_State \<times> GValue" where
  "lgi_value_init e L val ti =
     (let tag = g_type_info_get_tag ti
      in if tag = GI_TYPE_TAG_VOID then g_value_init e L val G_TYPE_NONE
         else case decltype_by_tag e tag of
           Some r \<Rightarrow> g_value_init e L val (row_val_type r)
         | None \<Rightarrow>
             if tag = GI_TYPE_TAG_INTERFACE e then
               (let ii = g_type_info_get_interface ti
                in if GI_IS_REGISTERED_TYPE_INFO ii
                   then g_value_init e L val (g_registered_type_info_get_g_type ii)
                   else (Inl (LuaError (''value_init: bad ti.iface.type=''
                                          @ show_int (g_base_info_get_type ii))), L, val))
             else (Inl (LuaError (''value_init: bad ti.tag='' @ show_int tag)), L, val))"

text \<open>The message of the two \<open>luaL_error\<close> calls that end the load and the store.\<close>

definition no_handling :: "env \<Rightarrow> string \<Rightarrow> string \<Rightarrow> GType \<Rightarrow> lua_error" where
  "no_handling e pre post t =
     LuaError (pre @ fmt_s (g_type_name e t) @ ''(''
                 @ fmt_s (g_type_name e (G_TYPE_FUNDAMENTAL e t)) @ post)"

definition lgi_value_load ::
  "env \<Rightarrow> lua_State \<Rightarrow> GValue \<Rightarrow> int \<Rightarrow> (lua_error + int) \<times> lua_State \<times> GValue" where
  "lgi_value_load e L val narg =
     (let type = g_type val
      in if \<not> G_TYPE_IS_VALUE e type then (Inr 0, L, val)
         else case decltype_by_gtype e type of
           Some r \<Rightarrow>
             (case row_check r L narg of
                Inl err \<Rightarrow> (Inl err, L, val)
              | Inr x \<Rightarrow> (Inr 1, L, row_val_set r val x))
         | None \<Rightarrow>
             if G_TYPE_FUNDAMENTAL e type = G_TYPE_ENUM then
               (case luaL_checkinteger (lua e) L narg of
                  Inl err \<Rightarrow> (Inl err, L, val)
                | Inr n \<Rightarrow> (Inr 1, L, g_value_set_enum val n))
             else if G_TYPE_FUNDAMENTAL e type = G_TYPE_FLAGS then
               (case luaL_checkinteger (lua e) L narg of
                  Inl err \<Rightarrow> (Inl err, L, val)
                | Inr n \<Rightarrow> (Inr 1, L, g_value_set_flags val n))
             else if G_TYPE_FUNDAMENTAL e type = G_TYPE_OBJECT then
               (case lgi_compound_get e L narg type of
                  Inl err \<Rightarrow> (Inl err, L, val)
                | Inr (type', obj, pushed) \<Rightarrow>
                    (Inr 1, lua_pop (L\<lparr>stack := stack L @ pushed\<rparr>) (length pushed),
                     g_value_set_object val obj))
             else if G_TYPE_FUNDAMENTAL e type = G_TYPE_BOXED then
               (case lgi_compound_get e L narg type of
                  Inl err \<Rightarrow> (Inl err, L, val)
                | Inr (type', obj, pushed) \<Rightarrow>
                    (Inr 1, lua_pop (L\<lparr>stack := stack L @ pushed\<rparr>) (length pushed),
                     g_value_set_boxed (g_boxed_copy e) val obj))
             else (Inl (no_handling e ''g_value_set: no handling of '' ''))'' type), L, val))"

definition lgi_value_store :: "env \<Rightarrow> lua_State \<Rightarrow> GValue \<Rightarrow> (lua_error + int) \<times> lua_State" where
  "lgi_value_store e L val =
     (let type = g_type val
      in if \<not> G_TYPE_IS_VALUE e type then (Inr 0, L)
         else case decltype_by_gtype e type of
           Some r \<Rightarrow> (Inr 1, lua_push L (row_push r (row_val_get r val)))
         | None \<Rightarrow>
             if G_TYPE_FUNDAMENTAL e type = G_TYPE_ENUM then
               (Inr 1, lua_pushinteger L (g_value_get_enum val))
             else if G_TYPE_FUNDAMENTAL e type = G_TYPE_FLAGS then
               (Inr 1, lua_pushinteger L (g_value_get_flags val))
             else if G_TYPE_FUNDAMENTAL e type = G_TYPE_OBJECT
                     \<or> G_TYPE_FUNDAMENTAL e type = G_TYPE_BOXED then
               (case g_irepository_find_by_gtype e type of
                  Some bi \<Rightarrow>
                    (let obj = (if GI_IS_OBJECT_INFO bi then g_value_dup_object val
                                else g_value_dup_boxed (g_boxed_copy e) val)
                     in case lgi_compound_create e L bi obj of
                          Inl err \<Rightarrow> (Inl err, L)
                        | Inr pushed \<Rightarrow>
                            (Inr (int (length pushed)), L\<lparr>stack := stack L @ pushed\<rparr>))
                | None \<Rightarrow> (Inl (no_handling e ''g_value_get: no handling or  '' '')'' type), L))
             else (Inl (no_handling e ''g_value_get: no handling or  '' '')'' type), L))"

section \<open>Closure bridge\<close>

text \<open>
  The header \<open>GClosure\<close> with the fields that glib.c's calls set: the reference count and
  the floating flag (\<open>g_closure_new_simple\<close>, \<open>g_closure_ref\<close>, \<open>g_closure_sink\<close>), the
  marshaller and the finalize notifiers, each named by the one function that glib.c
  installs. In \<open>LgiClosure\<close> the field \<open>L\<close> is the thread that the pointer designates.
\<close>

datatype marshaller = Lgi_gclosure_marshal
datatype notifier = Lgi_closure_finalize

record GClosure =
  ref_count :: nat
  floating :: bool
  marshal :: "marshaller option"
  finalize_notifiers :: "notifier list"

record LgiClosure =
  closure :: GClosure
  closure_L :: nat
  thread_ref :: int
  target_ref :: int

text \<open>
  \<open>g_closure_new_simple\<close> returns zeroed memory with one floating reference; GLib's
  allocator ends the process rather than return NULL.
\<close>

definition g_closure_new_simple :: LgiClosure where
  "g_closure_new_simple =
     \<lparr>closure = \<lparr>ref_count = 1, floating = True, marshal = None, finalize_notifiers = []\<rparr>,
      closure_L = 0, thread_ref = 0, target_ref = 0\<rparr>"

definition g_closure_set_marshal :: "GClosure \<Rightarrow> marshaller \<Rightarrow> GClosure" where
  "g_closure_set_marshal g m = g\<lparr>marshal := Some m\<rparr>"

definition g_closure_add_finalize_notifier :: "GClosure \<Rightarrow> notifier \<Rightarrow> GClosure" where
  "g_closure_add_finalize_notifier g n = g\<lparr>finalize_notifiers := finalize_notifiers g @ [n]\<rparr>"

definition g_closure_ref :: "GClosure \<Rightarrow> GClosure" where
  "g_closure_ref g = g\<lparr>ref_count := ref_count g + 1\<rparr>"

definition g_closure_sink :: "GClosure \<Rightarrow> GClosure" where
  "g_closure_sink g =
     (if floating g then g\<lparr>floating := False, ref_count := ref_count g - 1\<rparr> else g)"

definition lgi_closure_finalize :: "lua_State \<Rightarrow> LgiClosure \<Rightarrow> lua_State" where
  "lgi_closure_finalize L c = luaL_unref (luaL_unref L (thread_ref c)) (target_ref c)"

text \<open>
  The result of \<open>lgi_gclosure_create\<close> is a pointer: \<open>None\<close> is NULL, \<open>Some c\<close> the address
  of the closure \<open>c\<close>.
\<close>

definition lgi_gclosure_create ::
  "lua_State \<Rightarrow> int \<Rightarrow> (lua_error + LgiClosure option) \<times> lua_State" where
  "lgi_gclosure_create L target =
     (let type = lua_type L target
      in if type \<noteq> LUA_TFUNCTION \<and> type \<noteq> LUA_TTABLE \<and> type \<noteq> LUA_TUSERDATA then
           lua_then (luaL_typerror L target (lua_typename LUA_TFUNCTION))
             (\<lambda>u :: unit. \<lambda>L'. (Inr None, L'))
         else
           (let c0 = g_closure_new_simple;
                c1 = c0\<lparr>closure_L := thread_id L\<rparr>;
                L1 = lua_pushthread L;
                (r1, L2) = luaL_ref L1;
                c2 = c1\<lparr>thread_ref := r1\<rparr>;
                L3 = lua_pushvalue L2 target;
                (r2, L4) = luaL_ref L3;
                c3 = c2\<lparr>target_ref := r2\<rparr>;
                c4 = c3\<lparr>closure := g_closure_set_marshal (closure c3) Lgi_gclosure_marshal\<rparr>;
                c5 = c4\<lparr>closure :=
                         g_closure_add_finalize_notifier (closure c4) Lgi_closure_finalize\<rparr>;
                c6 = c5\<lparr>closure := g_closure_ref (closure c5)\<rparr>;
                c7 = c6\<lparr>closure := g_closure_sink (closure c6)\<rparr>
            in (Inr (Some c7), L4)))"

text \<open>
  Modelled from the spec: \<open>lgi_get_callback_state\<close> is declared in lgi.h and defined in
  another file of the repository. The spec (4.3, step 1): it obtains an execution context
  suitable for making a call, reusing the pinned context; a context that is no longer valid
  for calling is a hard failure. Here the pinned context is valid when the registry slot
  \<open>thread_ref\<close> still holds the thread that \<open>L\<close> designates and that thread is the one at
  hand; the two fields it is given by address are left as they are.
\<close>

definition lgi_get_callback_state ::
  "lua_State \<Rightarrow> LgiClosure \<Rightarrow> (lua_error + LgiClosure) \<times> lua_State" where
  "lgi_get_callback_state S c =
     (if registry_get S (thread_ref c) = LThread (closure_L c) \<and> thread_id S = closure_L c
      then (Inr c, S)
      else (Inl (LuaError ''callback state is not valid''), S))"

text \<open>
  The loop of \<open>lgi_gclosure_marshal\<close> that pushes the parameters: \<open>vals\<close> accumulates what
  \<open>lgi_value_store\<close> returns. GLib passes \<open>param_values\<close> with its length
  \<open>n_param_values\<close>; the list is both.
\<close>

fun push_parameters ::
  "env \<Rightarrow> lua_State \<Rightarrow> GValue list \<Rightarrow> int \<Rightarrow> (lua_error + int) \<times> lua_State" where
  "push_parameters e L [] vals = (Inr vals, L)"
| "push_parameters e L (p # ps) vals =
     (case lgi_value_store e L p of
        (Inl err, L') \<Rightarrow> (Inl err, L')
      | (Inr n, L') \<Rightarrow> push_parameters e L' ps (vals + n))"

definition lgi_gclosure_marshal ::
  "env \<Rightarrow> lua_State \<Rightarrow> LgiClosure \<Rightarrow> GValue \<Rightarrow> GValue list
     \<Rightarrow> (lua_error + unit) \<times> lua_State \<times> LgiClosure \<times> GValue" where
  "lgi_gclosure_marshal e S c return_value param_values =
     (case lgi_get_callback_state S c of
        (Inl err, L) \<Rightarrow> (Inl err, L, c, return_value)
      | (Inr c', L) \<Rightarrow>
     (case luaL_checkstack L (int (length param_values) + 1) [] of
        (Inl err, L1) \<Rightarrow> (Inl err, L1, c', return_value)
      | (Inr u, L1) \<Rightarrow>
     (case push_parameters e (lua_rawgeti_registry L1 (target_ref c')) param_values 0 of
        (Inl err, L3) \<Rightarrow> (Inl err, L3, c', return_value)
      | (Inr vals, L3) \<Rightarrow>
     (case lua_pcall (lua e) L3 (nat vals) of
        (res, L4) \<Rightarrow>
          if res = 0 then
            (case lgi_value_load e L4 return_value (- 1) of
               (Inl err, L5, rv) \<Rightarrow> (Inl err, L5, c', rv)
             | (Inr n, L5, rv) \<Rightarrow> (Inr (), L5, c', rv))
          else (Inr (), L4, c', return_value)))))"

section \<open>Notions used by the statements\<close>

text \<open>
  A tag is supported by \<open>lgi_value_init\<close> when the \<open>switch\<close> has a \<open>case\<close> for it: the void
  tag, the tag of a row of the table, or the interface tag. Arrays have none (the source
  leaves them as a TODO), like every other tag outside these.
\<close>

definition supported_tag :: "env \<Rightarrow> int \<Rightarrow> bool" where
  "supported_tag e t =
     (t = GI_TYPE_TAG_VOID \<or> t \<in> row_tag ` set (decltype e) \<or> t = GI_TYPE_TAG_INTERFACE e)"

text \<open>
  What \<open>lgi_value_store\<close> returns for each parameter box in turn, each call starting from
  the stack that the one before left.
\<close>

fun store_returns :: "env \<Rightarrow> lua_State \<Rightarrow> GValue list \<Rightarrow> int list" where
  "store_returns e L [] = []"
| "store_returns e L (p # ps) =
     (case lgi_value_store e L p of
        (Inl err, L') \<Rightarrow> []
      | (Inr n, L') \<Rightarrow> n # store_returns e L' ps)"

section \<open>The table of primitive types\<close>

text \<open>
  Modelled from the spec: decltype.h, the table of primitive types, is not in glib.c. The
  spec (4.1, 4.2): each primitive tag (boolean, integer widths, float widths, string)
  maps to one fixed concrete type of a closed, static table; a load obtains the value by
  a type-specific conversion-and-validate step (a numeric check, a string check) and
  writes it into the box; a store does the type-specific push of the stored value. The
  rows below are of that shape: a boolean (\<open>lua_toboolean\<close>, \<open>lua_pushboolean\<close>), integers of
  8, 16 and 32 bits (\<open>luaL_checkinteger\<close> converted to the C type of the row,
  \<open>lua_pushinteger\<close>) and a string (\<open>luaL_checkstring\<close>, \<open>lua_pushstring\<close>); the box keeps
  the C value as it is given (\<open>g_value_set_...\<close>, \<open>g_value_get_...\<close>). The 16-bit integer
  has no fundamental type of its own in GLib: its row shares \<open>G_TYPE_INT\<close> with the 32-bit
  row and is the one left out under \<open>DECLTYPE_KEY_BY_GTYPE\<close>. The float widths are left out
  (no floating point here). The tag numbers are those of GObject-Introspection 1.0.
\<close>

definition GI_TYPE_TAG_BOOLEAN :: int where "GI_TYPE_TAG_BOOLEAN = 1"
definition GI_TYPE_TAG_INT8 :: int where "GI_TYPE_TAG_INT8 = 2"
definition GI_TYPE_TAG_UINT8 :: int where "GI_TYPE_TAG_UINT8 = 3"
definition GI_TYPE_TAG_INT16 :: int where "GI_TYPE_TAG_INT16 = 4"
definition GI_TYPE_TAG_INT32 :: int where "GI_TYPE_TAG_INT32 = 6"
definition GI_TYPE_TAG_UTF8 :: int where "GI_TYPE_TAG_UTF8 = 13"

definition G_TYPE_CHAR :: GType where "G_TYPE_CHAR = 12"
definition G_TYPE_UCHAR :: GType where "G_TYPE_UCHAR = 16"

text \<open>The conversions of a \<open>lua_Integer\<close> to the C type of a row.\<close>

definition gint8 :: "int \<Rightarrow> int" where "gint8 n = sint (word_of_int n :: 8 word)"
definition guint8 :: "int \<Rightarrow> int" where "guint8 n = uint (word_of_int n :: 8 word)"
definition gint16 :: "int \<Rightarrow> int" where "gint16 n = sint (word_of_int n :: 16 word)"
definition gint32 :: "int \<Rightarrow> int" where "gint32 n = sint (word_of_int n :: 32 word)"

definition boolean_row :: decltype_row where
  "boolean_row =
     \<lparr>row_tag = GI_TYPE_TAG_BOOLEAN, row_key_by_gtype = True, row_val_type = G_TYPE_BOOLEAN,
      row_check = (\<lambda>L narg. Inr (CBoolean (lua_toboolean L narg))),
      row_push = (\<lambda>x. case x of CBoolean b \<Rightarrow> LBoolean b | _ \<Rightarrow> LNil),
      row_val_get = g_data,
      row_val_set = (\<lambda>val x. val\<lparr>g_data := x\<rparr>)\<rparr>"

definition integer_row ::
  "lua_impl \<Rightarrow> int \<Rightarrow> bool \<Rightarrow> GType \<Rightarrow> (int \<Rightarrow> int) \<Rightarrow> decltype_row" where
  "integer_row impl tag keyed gtype ctype =
     \<lparr>row_tag = tag, row_key_by_gtype = keyed, row_val_type = gtype,
      row_check = (\<lambda>L narg.
        case luaL_checkinteger impl L narg of
          Inl err \<Rightarrow> Inl err
        | Inr n \<Rightarrow> Inr (CInteger (ctype n))),
      row_push = (\<lambda>x. case x of CInteger n \<Rightarrow> LNumber n | _ \<Rightarrow> LNil),
      row_val_get = g_data,
      row_val_set = (\<lambda>val x. val\<lparr>g_data := x\<rparr>)\<rparr>"

definition int8_row :: "lua_impl \<Rightarrow> decltype_row" where
  "int8_row impl = integer_row impl GI_TYPE_TAG_INT8 True G_TYPE_CHAR gint8"

definition uint8_row :: "lua_impl \<Rightarrow> decltype_row" where
  "uint8_row impl = integer_row impl GI_TYPE_TAG_UINT8 True G_TYPE_UCHAR guint8"

definition int16_row :: "lua_impl \<Rightarrow> decltype_row" where
  "int16_row impl = integer_row impl GI_TYPE_TAG_INT16 False G_TYPE_INT gint16"

definition int32_row :: "lua_impl \<Rightarrow> decltype_row" where
  "int32_row impl = integer_row impl GI_TYPE_TAG_INT32 True G_TYPE_INT gint32"

definition utf8_row :: "lua_impl \<Rightarrow> decltype_row" where
  "utf8_row impl =
     \<lparr>row_tag = GI_TYPE_TAG_UTF8, row_key_by_gtype = True, row_val_type = G_TYPE_STRING,
      row_check = (\<lambda>L narg.
        case fst (luaL_checkstring impl L narg) of
          Inl err \<Rightarrow> Inl err
        | Inr s \<Rightarrow> Inr (CString s)),
      row_push = (\<lambda>x. case x of CString s \<Rightarrow> LString s | _ \<Rightarrow> LNil),
      row_val_get = g_data,
      row_val_set = (\<lambda>val x. val\<lparr>g_data := x\<rparr>)\<rparr>"

definition decltype_h :: "lua_impl \<Rightarrow> decltype_row list" where
  "decltype_h impl =
     [boolean_row, int8_row impl, uint8_row impl, int16_row impl, int32_row impl,
      utf8_row impl]"


section \<open>An instance of the parameters\<close>

text \<open>
  A small Lua implementation to run the definitions on: function 1 returns true, function
  2 raises an error, function 3 runs out of memory, function 4 returns its arguments in
  reverse; calling anything else is an error. Numbers print in decimal.
\<close>

definition demo_impl :: lua_impl where
  "demo_impl =
     \<lparr>lua_call = (\<lambda>f args.
        if f = LFunction 1 then CallReturns [LBoolean True]
        else if f = LFunction 2 then CallFails ERRRUN (LString ''boom'')
        else if f = LFunction 3 then CallFails ERRMEM (LString ''not enough memory'')
        else if f = LFunction 4 then CallReturns (rev args)
        else CallFails ERRRUN (LString ''attempt to call a value that is not a function'')),
      lua_number2str = show_int,
      lua_str2number = (\<lambda>s. None)\<rparr>"

definition demo_state :: lua_State where
  "demo_state =
     \<lparr>thread_id = 1, stack = [], registry = [], reg_log_handler = LNil, pcalls = [],
      g_log_emitted = [], g_log_default_handled = []\<rparr>"

text \<open>
  The rest of the instance: every type but \<open>G_TYPE_INVALID\<close> and \<open>G_TYPE_NONE\<close> bears a
  value; type 1000 is an enumeration and type 2000 an object class known to the
  repository; the compound wrapper wraps an address as one userdata; the table is the one
  above.
\<close>

definition demo_object_info :: GIBaseInfo where
  "demo_object_info =
     \<lparr>g_base_info_get_type = 7, GI_IS_REGISTERED_TYPE_INFO = True, GI_IS_OBJECT_INFO = True,
      g_registered_type_info_get_g_type = 2000\<rparr>"

definition demo_env :: env where
  "demo_env =
     \<lparr>lua = demo_impl,
      decltype = decltype_h demo_impl,
      GI_TYPE_TAG_INTERFACE = 16,
      G_TYPE_IS_VALUE = (\<lambda>t. t \<noteq> G_TYPE_INVALID \<and> t \<noteq> G_TYPE_NONE),
      G_TYPE_FUNDAMENTAL = (\<lambda>t. if t = 1000 then G_TYPE_ENUM
                                 else if t = 2000 then G_TYPE_OBJECT else t),
      g_type_name = (\<lambda>t. None),
      g_boxed_copy = (\<lambda>t p. p),
      g_irepository_find_by_gtype = (\<lambda>t. if t = 2000 then Some demo_object_info else None),
      lgi_compound_get = (\<lambda>L narg t.
        case lua_index L narg of
          Some (LUserdata p) \<Rightarrow> Inr (2000, p, [])
        | _ \<Rightarrow> Inl (TypeError narg ''userdata'' (luaL_typename L narg))),
      lgi_compound_create = (\<lambda>L bi p. Inr [LUserdata p]),
      g_value_init_warning = (\<lambda>t u. ''cannot initialize GValue'')\<rparr>"

definition demo_box :: "GType \<Rightarrow> cvalue \<Rightarrow> GValue" where
  "demo_box t x = \<lparr>g_type = t, g_data = x\<rparr>"

text \<open>
  A closure as \<open>lgi_gclosure_create\<close> leaves it in \<open>demo_state\<close> for a target at index 1:
  the thread in registry slot 1, the target in slot 2.
\<close>

definition demo_closure :: LgiClosure where
  "demo_closure =
     \<lparr>closure = \<lparr>ref_count = 1, floating = False, marshal = Some Lgi_gclosure_marshal,
                 finalize_notifiers = [Lgi_closure_finalize]\<rparr>,
      closure_L = 1, thread_ref = 1, target_ref = 2\<rparr>"

section \<open>Running the instance\<close>

text \<open>The instance computes: projections of the environment and the steps of a closure call.\<close>

lemma demo_env_simps:
  "lua demo_env = demo_impl"
  "decltype demo_env = decltype_h demo_impl"
  "GI_TYPE_TAG_INTERFACE demo_env = 16"
  "G_TYPE_IS_VALUE demo_env t = (t \<noteq> G_TYPE_INVALID \<and> t \<noteq> G_TYPE_NONE)"
  by (simp_all add: demo_env_def)

lemma integer_row_simps:
  "row_tag (integer_row impl tag keyed gtype ctype) = tag"
  "row_key_by_gtype (integer_row impl tag keyed gtype ctype) = keyed"
  "row_val_type (integer_row impl tag keyed gtype ctype) = gtype"
  "row_push (integer_row impl tag keyed gtype ctype) (CInteger n) = LNumber n"
  "row_val_get (integer_row impl tag keyed gtype ctype) box = g_data box"
  "row_val_set (integer_row impl tag keyed gtype ctype) box x = box\<lparr>g_data := x\<rparr>"
  by (simp_all add: integer_row_def)

lemma row_tags:
  "row_tag boolean_row = GI_TYPE_TAG_BOOLEAN" "row_tag (int8_row impl) = GI_TYPE_TAG_INT8"
  "row_tag (uint8_row impl) = GI_TYPE_TAG_UINT8" "row_tag (int16_row impl) = GI_TYPE_TAG_INT16"
  "row_tag (int32_row impl) = GI_TYPE_TAG_INT32" "row_tag (utf8_row impl) = GI_TYPE_TAG_UTF8"
  by (simp_all add: boolean_row_def int8_row_def uint8_row_def int16_row_def int32_row_def
      utf8_row_def integer_row_simps)

lemma row_types:
  "row_val_type boolean_row = G_TYPE_BOOLEAN" "row_val_type (int8_row impl) = G_TYPE_CHAR"
  "row_val_type (uint8_row impl) = G_TYPE_UCHAR" "row_val_type (int16_row impl) = G_TYPE_INT"
  "row_val_type (int32_row impl) = G_TYPE_INT" "row_val_type (utf8_row impl) = G_TYPE_STRING"
  by (simp_all add: boolean_row_def int8_row_def uint8_row_def int16_row_def int32_row_def
      utf8_row_def integer_row_simps)

lemma row_keys:
  "row_key_by_gtype boolean_row" "row_key_by_gtype (int8_row impl)"
  "row_key_by_gtype (uint8_row impl)" "\<not> row_key_by_gtype (int16_row impl)"
  "row_key_by_gtype (int32_row impl)" "row_key_by_gtype (utf8_row impl)"
  by (simp_all add: boolean_row_def int8_row_def uint8_row_def int16_row_def int32_row_def
      utf8_row_def integer_row_simps)

lemma tag_numbers:
  "GI_TYPE_TAG_BOOLEAN = 1" "GI_TYPE_TAG_INT8 = 2" "GI_TYPE_TAG_UINT8 = 3"
  "GI_TYPE_TAG_INT16 = 4" "GI_TYPE_TAG_INT32 = 6" "GI_TYPE_TAG_UTF8 = 13"
  by (simp_all add: GI_TYPE_TAG_BOOLEAN_def GI_TYPE_TAG_INT8_def GI_TYPE_TAG_UINT8_def
      GI_TYPE_TAG_INT16_def GI_TYPE_TAG_INT32_def GI_TYPE_TAG_UTF8_def)

lemma gtype_numbers:
  "G_TYPE_INVALID = 0" "G_TYPE_NONE = 4" "G_TYPE_CHAR = 12" "G_TYPE_UCHAR = 16"
  "G_TYPE_BOOLEAN = 20" "G_TYPE_INT = 24" "G_TYPE_STRING = 64"
  by (simp_all add: G_TYPE_INVALID_def G_TYPE_NONE_def G_TYPE_CHAR_def G_TYPE_UCHAR_def
      G_TYPE_BOOLEAN_def G_TYPE_INT_def G_TYPE_STRING_def)


lemma table_by_gtype:
  assumes "decltype e = decltype_h (lua e)"
  shows "decltype_by_gtype e G_TYPE_BOOLEAN = Some boolean_row"
    "decltype_by_gtype e G_TYPE_CHAR = Some (int8_row (lua e))"
    "decltype_by_gtype e G_TYPE_UCHAR = Some (uint8_row (lua e))"
    "decltype_by_gtype e G_TYPE_INT = Some (int32_row (lua e))"
    "decltype_by_gtype e G_TYPE_STRING = Some (utf8_row (lua e))"
  by (simp_all add: decltype_by_gtype_def assms decltype_h_def row_keys row_types)
    (simp_all add: gtype_numbers)

lemma demo_gtype_simps:
  "decltype_by_gtype demo_env G_TYPE_BOOLEAN = Some boolean_row"
  "decltype_by_gtype demo_env G_TYPE_INT = Some (int32_row demo_impl)"
  "decltype_by_gtype demo_env G_TYPE_STRING = Some (utf8_row demo_impl)"
  using table_by_gtype [of demo_env] by (simp_all add: demo_env_simps)

lemma demo_value_simps:
  "G_TYPE_IS_VALUE demo_env G_TYPE_BOOLEAN" "G_TYPE_IS_VALUE demo_env G_TYPE_INT"
  "G_TYPE_IS_VALUE demo_env G_TYPE_STRING" "\<not> G_TYPE_IS_VALUE demo_env G_TYPE_NONE"
  by (simp_all add: demo_env_simps gtype_numbers)

lemma demo_store_simps:
  "lgi_value_store demo_env L (demo_box G_TYPE_BOOLEAN (CBoolean b)) = (Inr 1, lua_push L (LBoolean b))"
  "lgi_value_store demo_env L (demo_box G_TYPE_INT (CInteger n)) = (Inr 1, lua_push L (LNumber n))"
  "lgi_value_store demo_env L (demo_box G_TYPE_STRING (CString s)) = (Inr 1, lua_push L (LString s))"
  "lgi_value_store demo_env L (demo_box G_TYPE_NONE x) = (Inr 0, L)"
  by (simp_all add: lgi_value_store_def demo_box_def demo_gtype_simps demo_value_simps)
    (simp_all add: boolean_row_def int32_row_def integer_row_def utf8_row_def)

lemma demo_callback_state:
  "lgi_get_callback_state (demo_state\<lparr>registry := [LThread 1, f]\<rparr>) demo_closure
     = (Inr demo_closure, demo_state\<lparr>registry := [LThread 1, f]\<rparr>)"
  by (simp add: lgi_get_callback_state_def registry_get_def demo_state_def demo_closure_def)

lemma demo_checkstack:
  "luaL_checkstack (demo_state\<lparr>registry := [LThread 1, f]\<rparr>) (int (length [a, b, c :: GValue]) + 1) []
     = (Inr (), demo_state\<lparr>registry := [LThread 1, f]\<rparr>)"
  by (simp add: luaL_checkstack_def LUAI_MAXCSTACK_def demo_state_def)

lemma demo_push_parameters:
  "push_parameters demo_env
     (lua_rawgeti_registry (demo_state\<lparr>registry := [LThread 1, f]\<rparr>) (target_ref demo_closure))
     [demo_box G_TYPE_BOOLEAN (CBoolean True), demo_box G_TYPE_NONE CNone,
      demo_box G_TYPE_INT (CInteger 5)] 0
     = (Inr 2, demo_state\<lparr>registry := [LThread 1, f],
                           stack := [f, LBoolean True, LNumber 5]\<rparr>)"
  by (simp add: demo_store_simps)
    (simp add: lua_rawgeti_registry_def registry_get_def lua_push_def demo_state_def
      demo_closure_def)

lemma demo_pcall_fails:
  "lua_pcall (lua demo_env)
     (demo_state\<lparr>registry := [LThread 1, LFunction 2],
                  stack := [LFunction 2, LBoolean True, LNumber 5]\<rparr>) (nat 2)
   = (LUA_ERRRUN,
      demo_state\<lparr>registry := [LThread 1, LFunction 2], stack := [LString ''boom''],
                   pcalls := [(LFunction 2, [LBoolean True, LNumber 5])]\<rparr>)"
  unfolding lua_pcall_def Let_def pcall_target_def pcall_args_def demo_env_simps
  by (simp add: lua_pop_def lua_push_def demo_impl_def demo_state_def)

section \<open>Severity names\<close>

lemma level_bit_in_range: "push_bit k G_LOG_LEVEL_ERROR \<le> G_LOG_LEVEL_DEBUG \<longleftrightarrow> k < 6"
proof
  assume le: "push_bit k G_LOG_LEVEL_ERROR \<le> G_LOG_LEVEL_DEBUG"
  show "k < 6"
  proof (rule ccontr)
    assume "\<not> k < 6"
    then have "(2::int) ^ 6 \<le> 2 ^ k" by (intro power_increasing) auto
    with le show False
      by (simp add: push_bit_eq_mult G_LOG_LEVEL_ERROR_def G_LOG_LEVEL_DEBUG_def)
  qed
next
  assume "k < 6"
  then have "(2::int) ^ k \<le> 2 ^ 5" by (intro power_increasing) auto
  then show "push_bit k G_LOG_LEVEL_ERROR \<le> G_LOG_LEVEL_DEBUG"
    by (simp add: push_bit_eq_mult G_LOG_LEVEL_ERROR_def G_LOG_LEVEL_DEBUG_def)
qed

lemma level_scan_stop:
  "k < 6 \<Longrightarrow> log_level AND push_bit k G_LOG_LEVEL_ERROR \<noteq> 0 \<Longrightarrow> level_scan log_level k = k"
  by (subst level_scan.simps) (simp add: level_bit_in_range)

lemma level_scan_end: "\<not> k < 6 \<Longrightarrow> level_scan log_level k = k"
  by (subst level_scan.simps) (simp add: level_bit_in_range)

lemma level_scan_step:
  "k < 6 \<Longrightarrow> log_level AND push_bit k G_LOG_LEVEL_ERROR = 0
     \<Longrightarrow> level_scan log_level k = level_scan log_level (Suc k)"
  by (subst level_scan.simps) (simp add: level_bit_in_range)

lemma level_scan_skip:
  "k \<le> 6 \<Longrightarrow> \<forall>j. i \<le> j \<and> j < k \<longrightarrow> log_level AND push_bit j G_LOG_LEVEL_ERROR = 0 \<Longrightarrow> i \<le> k
     \<Longrightarrow> level_scan log_level i = level_scan log_level k"
proof (induction "k - i" arbitrary: i)
  case 0
  then show ?case by simp
next
  case (Suc d)
  then have "i < k" "i < 6" by auto
  with Suc.prems have "level_scan log_level i = level_scan log_level (Suc i)"
    by (intro level_scan_step) auto
  also have "\<dots> = level_scan log_level k"
    using Suc by (intro Suc.hyps) auto
  finally show ?case .
qed

text \<open>The loop always stops inside the array: \<open>level\<close> points at one of its seven names.\<close>

lemma level_scan_le: "level_scan log_level k \<le> max k 6"
proof (induction log_level k rule: level_scan.induct)
  case (1 log_level k)
  show ?case
  proof (cases "k < 6")
    case True
    then show ?thesis using 1 by (subst level_scan.simps) (auto simp: level_bit_in_range)
  next
    case False
    then show ?thesis by (simp add: level_scan_end)
  qed
qed

lemma level_name_in_table: "level_name log_level \<in> set log_levels"
proof -
  have "level_scan log_level 0 < length log_levels"
    using level_scan_le [of log_level 0] by (simp add: log_levels_def)
  then show ?thesis by (simp add: level_name_def)
qed

text \<open>
  C5. \<open>log_handler\<close> names the level by the first entry of the table ERROR, CRITICAL,
  WARNING, MESSAGE, INFO, DEBUG whose bit is set in the mask, that is the lowest of the
  six level bits that is set: when bit \<open>G_LOG_LEVEL_ERROR << k\<close> is set and no lower level
  bit is, the name is entry \<open>k\<close>. The ERROR bit gives \<open>ERROR\<close>. A mask with none of the
  six bits gives \<open>???\<close>.
\<close>

theorem log_severity_mapping:
  "(k < 6 \<and> log_level AND push_bit k G_LOG_LEVEL_ERROR \<noteq> 0
      \<and> (\<forall>j<k. log_level AND push_bit j G_LOG_LEVEL_ERROR = 0)
     \<longrightarrow> level_name log_level
          = [''ERROR'', ''CRITICAL'', ''WARNING'', ''MESSAGE'', ''INFO'', ''DEBUG''] ! k)
   \<and> ((\<forall>j<6. log_level AND push_bit j G_LOG_LEVEL_ERROR = 0) \<longrightarrow> level_name log_level = ''???'')
   \<and> level_name G_LOG_LEVEL_ERROR = ''ERROR''"
proof (intro conjI impI)
  assume a: "k < 6 \<and> log_level AND push_bit k G_LOG_LEVEL_ERROR \<noteq> 0
      \<and> (\<forall>j<k. log_level AND push_bit j G_LOG_LEVEL_ERROR = 0)"
  then have "level_scan log_level 0 = level_scan log_level k"
    by (intro level_scan_skip) auto
  with a have "level_name log_level = log_levels ! k"
    by (simp add: level_name_def level_scan_stop)
  also have "\<dots> = [''ERROR'', ''CRITICAL'', ''WARNING'', ''MESSAGE'', ''INFO'', ''DEBUG''] ! k"
    using a by (simp add: log_levels_def nth_Cons split: nat.splits)
  finally show "level_name log_level
      = [''ERROR'', ''CRITICAL'', ''WARNING'', ''MESSAGE'', ''INFO'', ''DEBUG''] ! k" .
next
  assume "\<forall>j<6. log_level AND push_bit j G_LOG_LEVEL_ERROR = 0"
  then have "level_scan log_level 0 = level_scan log_level 6"
    by (intro level_scan_skip) auto
  then show "level_name log_level = ''???''"
    by (simp add: level_name_def level_scan_end log_levels_def)
next
  have "level_scan G_LOG_LEVEL_ERROR 0 = 0"
    by (rule level_scan_stop) (simp_all add: G_LOG_LEVEL_ERROR_def)
  then show "level_name G_LOG_LEVEL_ERROR = ''ERROR''"
    by (simp add: level_name_def log_levels_def)
qed

text \<open>
  At WARNING and DEBUG together the name is the lower one, WARNING; at the fatal flag with
  a user-defined level (bit 8) it is \<open>???\<close>.
\<close>

theorem log_severity_mapping_witness:
  "level_name (G_LOG_LEVEL_WARNING OR G_LOG_LEVEL_DEBUG) = ''WARNING''
   \<and> level_name (G_LOG_FLAG_FATAL OR 256) = ''???''
   \<and> level_name G_LOG_LEVEL_ERROR = ''ERROR''"
proof -
  have bits: "\<forall>j<2. (G_LOG_LEVEL_WARNING OR G_LOG_LEVEL_DEBUG) AND push_bit j G_LOG_LEVEL_ERROR = 0"
    by (simp add: G_LOG_LEVEL_WARNING_def G_LOG_LEVEL_DEBUG_def G_LOG_LEVEL_ERROR_def
        less_Suc_eq numeral_2_eq_2)
  have none: "\<forall>j<6. (G_LOG_FLAG_FATAL OR 256) AND push_bit j G_LOG_LEVEL_ERROR = 0"
    by (simp add: G_LOG_FLAG_FATAL_def G_LOG_LEVEL_ERROR_def less_Suc_eq eval_nat_numeral)
  show ?thesis
    using log_severity_mapping [of 2 "G_LOG_LEVEL_WARNING OR G_LOG_LEVEL_DEBUG"]
      log_severity_mapping [of 0 "G_LOG_FLAG_FATAL OR 256"] bits none
    by (simp add: G_LOG_LEVEL_WARNING_def G_LOG_LEVEL_DEBUG_def G_LOG_LEVEL_ERROR_def)
qed

section \<open>Boxes without a value, tags without a case\<close>

text \<open>
  C8. For a box whose declared type is not value-bearing, \<open>lgi_value_load\<close> and
  \<open>lgi_value_store\<close> both return 0 and raise nothing; the box and the Lua stack (the whole
  interpreter state) are as before.
\<close>

theorem unknown_type_fallthrough:
  assumes "\<not> G_TYPE_IS_VALUE e (g_type val)"
  shows "lgi_value_load e L val narg = (Inr 0, L, val) \<and> lgi_value_store e L val = (Inr 0, L)"
  using assms by (simp add: lgi_value_load_def lgi_value_store_def)

text \<open>A box of type \<open>G_TYPE_NONE\<close>, over a stack holding one number.\<close>

theorem unknown_type_fallthrough_witness:
  "\<not> G_TYPE_IS_VALUE demo_env (g_type (demo_box G_TYPE_NONE CNone))
   \<and> lgi_value_load demo_env (demo_state\<lparr>stack := [LNumber 7]\<rparr>) (demo_box G_TYPE_NONE CNone) 1
       = (Inr 0, demo_state\<lparr>stack := [LNumber 7]\<rparr>, demo_box G_TYPE_NONE CNone)
   \<and> lgi_value_store demo_env (demo_state\<lparr>stack := [LNumber 7]\<rparr>) (demo_box G_TYPE_NONE CNone)
       = (Inr 0, demo_state\<lparr>stack := [LNumber 7]\<rparr>)"
proof -
  have h: "\<not> G_TYPE_IS_VALUE demo_env (g_type (demo_box G_TYPE_NONE CNone))"
    by (simp add: demo_env_def demo_box_def)
  from unknown_type_fallthrough [OF h] h show ?thesis by simp
qed

lemma decltype_by_tag_None: "t \<notin> row_tag ` set (decltype e) \<Longrightarrow> decltype_by_tag e t = None"
  by (auto simp: decltype_by_tag_def find_None_iff)

text \<open>
  C7. \<open>lgi_value_init\<close> on a type whose tag has no case (an array tag, or any other tag
  that is not void, a row of the table or the interface tag) raises the error
  \<open>value_init: bad ti.tag=\<close> followed by the tag in decimal. The box is left as it was: it
  is not initialised, to \<open>G_TYPE_NONE\<close> or to anything else.
\<close>

theorem unsupported_tag_fails:
  assumes "\<not> supported_tag e (g_type_info_get_tag ti)"
  shows "lgi_value_init e L val ti
           = (Inl (LuaError (''value_init: bad ti.tag='' @ show_int (g_type_info_get_tag ti))), L, val)"
  using assms by (simp add: lgi_value_init_def supported_tag_def decltype_by_tag_None)

text \<open>The array tag, 15 in the numbering of the instance.\<close>

theorem unsupported_tag_fails_witness:
  "\<not> supported_tag demo_env 15
   \<and> lgi_value_init demo_env demo_state (demo_box G_TYPE_INVALID CNone)
        \<lparr>g_type_info_get_tag = 15, g_type_info_get_interface = demo_object_info\<rparr>
       = (Inl (LuaError ''value_init: bad ti.tag=15''), demo_state, demo_box G_TYPE_INVALID CNone)"
proof -
  have h: "\<not> supported_tag demo_env
             (g_type_info_get_tag \<lparr>g_type_info_get_tag = 15, g_type_info_get_interface = demo_object_info\<rparr>)"
    by (simp add: supported_tag_def demo_env_simps decltype_h_def row_tags tag_numbers
        GI_TYPE_TAG_VOID_def)
  have s: "show_int 15 = ''15''" by (simp add: show_int_def digit_def)
  from unsupported_tag_fails [OF h] h s show ?thesis by simp
qed

section \<open>Creating a closure\<close>

lemma lua_then_raise: "lua_then (Inl err, L) k = (Inl err, L)"
  by (simp add: lua_then_def)

text \<open>
  C9. \<open>lgi_gclosure_create\<close> never returns NULL. For a target that is a function, a table
  or a userdata it returns the address of a closure. For any other target it raises the
  type error of \<open>luaL_typerror\<close> (function expected), which does not return, so the
  \<open>return NULL\<close> after it is never reached.
\<close>

theorem closure_create_never_null:
  "(lua_type L target = LUA_TFUNCTION \<or> lua_type L target = LUA_TTABLE \<or> lua_type L target = LUA_TUSERDATA
      \<longrightarrow> (\<exists>c L'. lgi_gclosure_create L target = (Inr (Some c), L')))
   \<and> (lua_type L target \<noteq> LUA_TFUNCTION \<and> lua_type L target \<noteq> LUA_TTABLE \<and> lua_type L target \<noteq> LUA_TUSERDATA
      \<longrightarrow> lgi_gclosure_create L target
            = (Inl (TypeError target ''function'' (luaL_typename L target)), L))
   \<and> fst (lgi_gclosure_create L target) \<noteq> Inr None"
proof -
  have valid: "\<exists>c L'. lgi_gclosure_create L target = (Inr (Some c), L')"
    if "lua_type L target = LUA_TFUNCTION \<or> lua_type L target = LUA_TTABLE \<or> lua_type L target = LUA_TUSERDATA"
    using that by (auto simp: lgi_gclosure_create_def Let_def split: prod.splits)
  have invalid: "lgi_gclosure_create L target
            = (Inl (TypeError target ''function'' (luaL_typename L target)), L)"
    if "lua_type L target \<noteq> LUA_TFUNCTION \<and> lua_type L target \<noteq> LUA_TTABLE \<and> lua_type L target \<noteq> LUA_TUSERDATA"
    using that
    by (simp add: lgi_gclosure_create_def luaL_typerror_def lua_then_raise lua_typename_def
        LUA_TFUNCTION_def LUA_TNONE_def LUA_TNIL_def LUA_TBOOLEAN_def LUA_TLIGHTUSERDATA_def
        LUA_TNUMBER_def LUA_TSTRING_def LUA_TTABLE_def)
  have "fst (lgi_gclosure_create L target) \<noteq> Inr None"
  proof (cases "lua_type L target = LUA_TFUNCTION \<or> lua_type L target = LUA_TTABLE \<or> lua_type L target = LUA_TUSERDATA")
    case True
    from valid [OF True] show ?thesis by auto
  next
    case False
    then show ?thesis using invalid by simp
  qed
  with valid invalid show ?thesis by blast
qed

text \<open>A function at index 1 gives a closure; a number at index 1 gives the type error.\<close>

theorem closure_create_never_null_witness:
  "lua_type (demo_state\<lparr>stack := [LFunction 2]\<rparr>) 1 = LUA_TFUNCTION
   \<and> lgi_gclosure_create (demo_state\<lparr>stack := [LFunction 2]\<rparr>) 1
       = (Inr (Some demo_closure), demo_state\<lparr>stack := [LFunction 2], registry := [LThread 1, LFunction 2]\<rparr>)
   \<and> lgi_gclosure_create (demo_state\<lparr>stack := [LNumber 2]\<rparr>) 1
       = (Inl (TypeError 1 ''function'' ''number''), demo_state\<lparr>stack := [LNumber 2]\<rparr>)"
proof -
  have t1: "lua_type (demo_state\<lparr>stack := [LFunction 2]\<rparr>) 1 = LUA_TFUNCTION"
    by (simp add: lua_type_def lua_index_def slot_of_def demo_state_def)
  have t2: "lua_type (demo_state\<lparr>stack := [LNumber 2]\<rparr>) 1 = LUA_TNUMBER"
    by (simp add: lua_type_def lua_index_def slot_of_def demo_state_def)
  have n: "luaL_typename (demo_state\<lparr>stack := [LNumber 2]\<rparr>) 1 = ''number''"
    by (simp add: luaL_typename_def t2) (simp add: lua_typename_def LUA_TFUNCTION_def LUA_TNONE_def LUA_TNIL_def LUA_TBOOLEAN_def LUA_TLIGHTUSERDATA_def
        LUA_TNUMBER_def LUA_TSTRING_def LUA_TTABLE_def)
  have c: "lgi_gclosure_create (demo_state\<lparr>stack := [LFunction 2]\<rparr>) 1
       = (Inr (Some demo_closure), demo_state\<lparr>stack := [LFunction 2], registry := [LThread 1, LFunction 2]\<rparr>)"
    by (simp add: lgi_gclosure_create_def lua_type_def Let_def lua_pushthread_def lua_push_def luaL_ref_def
        lua_index_def slot_of_def lua_pop_def lua_pushvalue_def demo_state_def demo_closure_def
        g_closure_new_simple_def g_closure_set_marshal_def g_closure_add_finalize_notifier_def
        g_closure_ref_def g_closure_sink_def LUA_TFUNCTION_def)
  from closure_create_never_null [of "demo_state\<lparr>stack := [LNumber 2]\<rparr>" 1]
    closure_create_never_null [of "demo_state\<lparr>stack := [LFunction 2]\<rparr>" 1] t1 t2 n c
  show ?thesis
    by (simp add: LUA_TFUNCTION_def LUA_TNUMBER_def LUA_TTABLE_def LUA_TUSERDATA_def)
qed

section \<open>Invoking a closure\<close>

text \<open>
  A store pushes as many values as it returns and touches nothing but the stack; so does
  the loop over the parameters.
\<close>

lemma store_appends:
  assumes "lgi_value_store e L p = (Inr n, L')"
  shows "\<exists>vs. L' = L\<lparr>stack := stack L @ vs\<rparr> \<and> n = int (length vs)"
proof (cases "G_TYPE_IS_VALUE e (g_type p)")
  case False
  with assms have "L' = L" "n = 0" by (simp_all add: lgi_value_store_def)
  then show ?thesis by (intro exI [of _ "[]"]) simp
next
  case True
  with assms show ?thesis
    by (auto simp: lgi_value_store_def Let_def lua_push_def lua_pushinteger_def
        split: option.splits if_splits sum.splits)
qed

lemma store_not_value:
  "\<not> G_TYPE_IS_VALUE e (g_type b) \<Longrightarrow> lgi_value_store e L b = (Inr 0, L)"
  by (simp add: lgi_value_store_def)

lemma push_parameters_appends:
  "push_parameters e L ps v = (Inr vals, L')
     \<Longrightarrow> \<exists>vs. L' = L\<lparr>stack := stack L @ vs\<rparr> \<and> vals = v + int (length vs)"
proof (induction ps arbitrary: L v)
  case Nil
  then show ?case by (intro exI [of _ "[]"]) simp
next
  case (Cons p ps)
  from Cons.prems obtain n L1 where s: "lgi_value_store e L p = (Inr n, L1)"
    and r: "push_parameters e L1 ps (v + n) = (Inr vals, L')"
    by (auto split: prod.splits sum.splits)
  from store_appends [OF s] obtain vs1 where 1: "L1 = L\<lparr>stack := stack L @ vs1\<rparr>" "n = int (length vs1)"
    by blast
  from Cons.IH [OF r] obtain vs2 where 2: "L' = L1\<lparr>stack := stack L1 @ vs2\<rparr>" "vals = v + n + int (length vs2)"
    by blast
  from 1 2 show ?case by (intro exI [of _ "vs1 @ vs2"]) simp
qed

lemma push_parameters_sum:
  "push_parameters e L ps v = (Inr vals, L') \<Longrightarrow> vals = v + sum_list (store_returns e L ps)"
proof (induction ps arbitrary: L v)
  case Nil
  then show ?case by simp
next
  case (Cons p ps)
  from Cons.prems obtain n L1 where s: "lgi_value_store e L p = (Inr n, L1)"
    and r: "push_parameters e L1 ps (v + n) = (Inr vals, L')"
    by (auto split: prod.splits sum.splits)
  from Cons.IH [OF r] s show ?case by simp
qed

lemma push_parameters_drop:
  "\<not> G_TYPE_IS_VALUE e (g_type b)
     \<Longrightarrow> push_parameters e L (pre @ b # post) v = push_parameters e L (pre @ post) v"
  by (induction pre arbitrary: L v) (auto simp: store_not_value split: prod.splits sum.splits)

lemma load_frame:
  assumes "lgi_value_load e L val narg = (r, L', val')"
  shows "pcalls L' = pcalls L \<and> registry L' = registry L \<and> thread_id L' = thread_id L"
  using assms
  by (auto simp: lgi_value_load_def Let_def lua_pop_def
      split: option.splits if_splits sum.splits prod.splits)

lemma pcall_on_pushed:
  assumes "stack L3 = base @ [f] @ args"
  shows "lua_pcall impl L3 (length args)
           = (case lua_call impl f args of
                CallReturns rs \<Rightarrow>
                  (0, L3\<lparr>stack := base @ [case rs of [] \<Rightarrow> LNil | r # _ \<Rightarrow> r],
                         pcalls := pcalls L3 @ [(f, args)]\<rparr>)
              | CallFails st err \<Rightarrow>
                  (status_code st, L3\<lparr>stack := base @ [err], pcalls := pcalls L3 @ [(f, args)]\<rparr>))"
  using assms
  by (simp add: lua_pcall_def pcall_target_def pcall_args_def lua_pop_def lua_push_def Let_def
      nth_append split: call_outcome.splits)

text \<open>
  C10. When \<open>lgi_gclosure_marshal\<close> reaches the call, the argument count \<open>vals\<close> it passes
  to \<open>lua_pcall\<close> is the sum of what \<open>lgi_value_store\<close> returned for the parameter boxes
  in order; the callable, taken from the registry, is called with exactly the \<open>vals\<close>
  values that the stores pushed. A box whose type is not value-bearing makes its store
  return 0 and push nothing, without an error: the loop runs as if the box were not in the
  list, and the parameters after it move one position down.
\<close>

theorem closure_argument_count:
  assumes cs: "lgi_get_callback_state S c = (Inr c', L)"
    and st: "luaL_checkstack L (int (length ps) + 1) [] = (Inr (), L1)"
    and pp: "push_parameters e (lua_rawgeti_registry L1 (target_ref c')) ps 0 = (Inr vals, L3)"
  shows "vals = sum_list (store_returns e (lua_rawgeti_registry L1 (target_ref c')) ps)
    \<and> (\<exists>args. stack L3 = stack S @ [registry_get S (target_ref c)] @ args
          \<and> int (length args) = vals
          \<and> pcalls (fst (snd (lgi_gclosure_marshal e S c rv ps)))
              = pcalls S @ [(registry_get S (target_ref c), args)])
    \<and> (\<forall>pre b post L0 v0. \<not> G_TYPE_IS_VALUE e (g_type b) \<longrightarrow>
          lgi_value_store e L0 b = (Inr 0, L0)
          \<and> push_parameters e L0 (pre @ b # post) v0 = push_parameters e L0 (pre @ post) v0)"
proof (intro conjI)
  show "vals = sum_list (store_returns e (lua_rawgeti_registry L1 (target_ref c')) ps)"
    using push_parameters_sum [OF pp] by simp
next
  from cs have c': "c' = c" and L: "L = S"
    by (auto simp: lgi_get_callback_state_def split: if_splits)
  from st have L1: "L1 = L"
    by (auto simp: luaL_checkstack_def split: if_splits)
  from push_parameters_appends [OF pp] obtain args
    where L3: "L3 = (lua_rawgeti_registry L1 (target_ref c'))
                      \<lparr>stack := stack (lua_rawgeti_registry L1 (target_ref c')) @ args\<rparr>"
      and n: "vals = int (length args)"
    by auto
  let ?f = "registry_get S (target_ref c)"
  have stk: "stack L3 = stack S @ [?f] @ args"
    by (simp add: L3 L1 L c' lua_rawgeti_registry_def lua_push_def)
  have pc: "pcalls L3 = pcalls S"
    by (simp add: L3 L1 L c' lua_rawgeti_registry_def lua_push_def)
  have nat: "nat vals = length args" using n by simp
  have "pcalls (fst (snd (lgi_gclosure_marshal e S c rv ps))) = pcalls S @ [(?f, args)]"
  proof (cases "lua_call (lua e) ?f args")
    case (CallReturns rs)
    obtain r L5 rv' where ld: "lgi_value_load e
        (L3\<lparr>stack := stack S @ [case rs of [] \<Rightarrow> LNil | r # _ \<Rightarrow> r],
            pcalls := pcalls L3 @ [(?f, args)]\<rparr>) rv (- 1) = (r, L5, rv')"
      by (metis prod_cases3)
    from load_frame [OF ld] have "pcalls L5 = pcalls S @ [(?f, args)]" by (simp add: pc)
    then show ?thesis
      using cs st pp ld CallReturns
      by (simp add: lgi_gclosure_marshal_def nat pcall_on_pushed [OF stk] split: sum.splits)
  next
    case (CallFails s err)
    have "status_code s \<noteq> 0"
      by (cases s) (simp_all add: LUA_ERRRUN_def LUA_ERRMEM_def LUA_ERRERR_def)
    then show ?thesis
      using cs st pp CallFails
      by (simp add: lgi_gclosure_marshal_def nat pcall_on_pushed [OF stk] pc)
  qed
  with stk n show "\<exists>args. stack L3 = stack S @ [?f] @ args \<and> int (length args) = vals
      \<and> pcalls (fst (snd (lgi_gclosure_marshal e S c rv ps))) = pcalls S @ [(?f, args)]"
    by blast
next
  show "\<forall>pre b post L0 v0. \<not> G_TYPE_IS_VALUE e (g_type b) \<longrightarrow>
          lgi_value_store e L0 b = (Inr 0, L0)
          \<and> push_parameters e L0 (pre @ b # post) v0 = push_parameters e L0 (pre @ post) v0"
    by (simp add: store_not_value push_parameters_drop)
qed

text \<open>
  Three parameters, the second of type \<open>G_TYPE_NONE\<close>: the callable receives two arguments,
  the integer in second position.
\<close>

theorem closure_argument_count_witness:
  "sum_list (store_returns demo_env
       (lua_rawgeti_registry (demo_state\<lparr>registry := [LThread 1, LFunction 4]\<rparr>) 2)
       [demo_box G_TYPE_BOOLEAN (CBoolean True), demo_box G_TYPE_NONE CNone,
        demo_box G_TYPE_INT (CInteger 5)]) = 2
   \<and> pcalls (fst (snd (lgi_gclosure_marshal demo_env
        (demo_state\<lparr>registry := [LThread 1, LFunction 4]\<rparr>) demo_closure
        (demo_box G_TYPE_INT CNone)
        [demo_box G_TYPE_BOOLEAN (CBoolean True), demo_box G_TYPE_NONE CNone,
         demo_box G_TYPE_INT (CInteger 5)])))
       = [(LFunction 4, [LBoolean True, LNumber 5])]"
proof -
  have t: "target_ref demo_closure = 2" by (simp add: demo_closure_def)
  from closure_argument_count [OF demo_callback_state demo_checkstack demo_push_parameters,
      where rv = "demo_box G_TYPE_INT CNone"]
  show ?thesis
    by (simp add: t registry_get_def) (simp add: demo_state_def)
qed

lemma status_code_nonzero: "status_code s \<noteq> 0"
  by (cases s) (simp_all add: LUA_ERRRUN_def LUA_ERRMEM_def LUA_ERRERR_def)

lemma pcall_frame:
  "registry (snd (lua_pcall impl L n)) = registry L
   \<and> thread_id (snd (lua_pcall impl L n)) = thread_id L"
  unfolding lua_pcall_def Let_def
  by (simp add: lua_push_def lua_pop_def split: call_outcome.splits)

lemma pcall_fails_status:
  "lua_call impl (pcall_target L n) (pcall_args L n) = CallFails s err
     \<Longrightarrow> fst (lua_pcall impl L n) = status_code s"
  unfolding lua_pcall_def Let_def by simp

text \<open>
  C3. When the callable raises during the invocation (\<open>lua_pcall\<close> fails), 
  \<open>lgi_gclosure_marshal\<close> returns normally: no error reaches the native caller, the return
  box is as it was, the fields of the closure are as they were, and the registry, hence
  the two pinned references, is unchanged; the callback state of the closure can be
  obtained again, so the closure can be invoked afterwards.
\<close>

theorem closure_failure_isolation:
  assumes cs: "lgi_get_callback_state S c = (Inr c', L)"
    and st: "luaL_checkstack L (int (length ps) + 1) [] = (Inr (), L1)"
    and pp: "push_parameters e (lua_rawgeti_registry L1 (target_ref c')) ps 0 = (Inr vals, L3)"
    and fails: "lua_call (lua e) (pcall_target L3 (nat vals)) (pcall_args L3 (nat vals))
                  = CallFails s err"
  shows "\<exists>L4. lgi_gclosure_marshal e S c rv ps = (Inr (), L4, c, rv)
           \<and> registry L4 = registry S
           \<and> lgi_get_callback_state L4 c = (Inr c, L4)"
proof -
  have valid: "registry_get S (thread_ref c) = LThread (closure_L c) \<and> thread_id S = closure_L c"
  proof (rule ccontr)
    assume "\<not> ?thesis"
    then have "fst (lgi_get_callback_state S c) = Inl (LuaError ''callback state is not valid'')"
      by (simp add: lgi_get_callback_state_def)
    with cs show False by simp
  qed
  with cs have c': "c' = c" and L: "L = S"
    by (simp_all add: lgi_get_callback_state_def)
  from st have L1: "L1 = L"
    by (auto simp: luaL_checkstack_def split: if_splits)
  from push_parameters_appends [OF pp] obtain args
    where L3: "L3 = (lua_rawgeti_registry L1 (target_ref c'))
                      \<lparr>stack := stack (lua_rawgeti_registry L1 (target_ref c')) @ args\<rparr>"
    by auto
  have L3_frame: "registry L3 = registry S" "thread_id L3 = thread_id S"
    by (simp_all add: L3 L1 L lua_rawgeti_registry_def lua_push_def)
  define L4 where "L4 = snd (lua_pcall (lua e) L3 (nat vals))"
  have pc: "lua_pcall (lua e) L3 (nat vals) = (status_code s, L4)"
    using pcall_fails_status [OF fails] by (simp add: L4_def prod_eq_iff)
  have frame: "registry L4 = registry S" "thread_id L4 = thread_id S"
    using pcall_frame [of "lua e" L3 "nat vals"] by (simp_all add: L4_def L3_frame)
  have m: "lgi_gclosure_marshal e S c rv ps = (Inr (), L4, c, rv)"
    unfolding lgi_gclosure_marshal_def cs st pp pc prod.case sum.case
    by (simp add: status_code_nonzero c')
  have again: "lgi_get_callback_state L4 c = (Inr c, L4)"
  proof -
    have "registry_get L4 (thread_ref c) = registry_get S (thread_ref c)"
      by (simp add: registry_get_def frame)
    with valid show ?thesis by (simp add: lgi_get_callback_state_def frame)
  qed
  from m frame again show ?thesis by blast
qed

lemma demo_marshal_fails:
  "lgi_gclosure_marshal demo_env (demo_state\<lparr>registry := [LThread 1, LFunction 2]\<rparr>) demo_closure
     (demo_box G_TYPE_INT (CInteger 9))
     [demo_box G_TYPE_BOOLEAN (CBoolean True), demo_box G_TYPE_NONE CNone,
      demo_box G_TYPE_INT (CInteger 5)]
   = (Inr (),
      demo_state\<lparr>registry := [LThread 1, LFunction 2], stack := [LString ''boom''],
                   pcalls := [(LFunction 2, [LBoolean True, LNumber 5])]\<rparr>,
      demo_closure, demo_box G_TYPE_INT (CInteger 9))"
  unfolding lgi_gclosure_marshal_def demo_callback_state demo_checkstack demo_push_parameters
    prod.case sum.case demo_pcall_fails
  by (simp add: LUA_ERRRUN_def)

text \<open>The callable is function 2 of the instance, which raises \<open>boom\<close>.\<close>

theorem closure_failure_isolation_witness:
  "\<exists>L4. lgi_gclosure_marshal demo_env (demo_state\<lparr>registry := [LThread 1, LFunction 2]\<rparr>)
          demo_closure (demo_box G_TYPE_INT (CInteger 9))
          [demo_box G_TYPE_BOOLEAN (CBoolean True), demo_box G_TYPE_NONE CNone,
           demo_box G_TYPE_INT (CInteger 5)]
        = (Inr (), L4, demo_closure, demo_box G_TYPE_INT (CInteger 9))
      \<and> L4 = demo_state\<lparr>registry := [LThread 1, LFunction 2], stack := [LString ''boom''],
                   pcalls := [(LFunction 2, [LBoolean True, LNumber 5])]\<rparr>
      \<and> registry L4 = registry (demo_state\<lparr>registry := [LThread 1, LFunction 2]\<rparr>)
      \<and> lgi_get_callback_state L4 demo_closure = (Inr demo_closure, L4)"
proof -
  let ?L3 = "demo_state\<lparr>registry := [LThread 1, LFunction 2],
                          stack := [LFunction 2, LBoolean True, LNumber 5]\<rparr>"
  have fails: "lua_call (lua demo_env) (pcall_target ?L3 (nat 2)) (pcall_args ?L3 (nat 2))
                 = CallFails ERRRUN (LString ''boom'')"
    by (simp add: pcall_target_def pcall_args_def demo_env_def demo_impl_def demo_state_def)
  from closure_failure_isolation [OF demo_callback_state demo_checkstack demo_push_parameters fails,
      where rv = "demo_box G_TYPE_INT (CInteger 9)"]
  show ?thesis
    unfolding demo_marshal_fails by blast
qed

section \<open>Log events\<close>

lemma lua_index_top: "stack L = xs @ [v] \<Longrightarrow> lua_index L (- 1) = Some v"
  by (simp add: lua_index_def slot_of_def)

lemma pcall_three:
  assumes "stack L = base @ [t, h, a, b, c]"
  shows "lua_pcall impl L 3
           = (case lua_call impl h [a, b, c] of
                CallReturns rs \<Rightarrow>
                  (0, L\<lparr>stack := base @ [t, case rs of [] \<Rightarrow> LNil | r # _ \<Rightarrow> r],
                        pcalls := pcalls L @ [(h, [a, b, c])]\<rparr>)
              | CallFails st err \<Rightarrow>
                  (status_code st, L\<lparr>stack := base @ [t, err], pcalls := pcalls L @ [(h, [a, b, c])]\<rparr>))"
  using assms unfolding lua_pcall_def Let_def pcall_target_def pcall_args_def
  by (simp add: lua_pop_def lua_push_def nth_append split: call_outcome.splits)

lemma call_log_handler_frame:
  "g_log_default_handled (snd (call_log_handler impl L d lv m)) = g_log_default_handled L"
  unfolding call_log_handler_def lua_pcall_def Let_def
  by (simp add: lua_pushstring_def lua_push_def lua_pop_def split: call_outcome.splits prod.splits)

lemma log_handler_without_handler:
  assumes "reg_log_handler L = LNil"
  shows "log_handler impl L log_domain log_level message
           = (if log_level AND (G_LOG_FLAG_FATAL OR G_LOG_LEVEL_ERROR) \<noteq> 0
              then (Inl (LuaError (fmt_s log_domain @ ''-'' @ level_name log_level @ '' **: ''
                                     @ message)), L)
              else (Inr (), g_log_default_handler L log_domain log_level message))"
proof -
  define L2 where "L2 = lua_push (lua_push L lgi_registry_table) (reg_log_handler (lua_push L lgi_registry_table))"
  have stk: "stack L2 = (stack L @ [lgi_registry_table]) @ [LNil]"
    using assms by (simp add: L2_def lua_push_def)
  have "lua_isnil L2 (- 1)"
    by (simp add: lua_isnil_def lua_type_def lua_index_top [OF stk])
  then have c: "call_log_handler impl L2 log_domain (level_name log_level) message = ((False, False), L2)"
    by (simp add: call_log_handler_def)
  have p: "lua_pop L2 2 = L"
    by (simp add: lua_pop_def L2_def lua_push_def)
  show ?thesis
    unfolding log_handler_def Let_def L2_def [symmetric] c prod.case p
    by (simp add: lua_then_def luaL_error_def)
qed

lemma demo_level_names:
  "level_name G_LOG_LEVEL_ERROR = ''ERROR''" "level_name G_LOG_LEVEL_WARNING = ''WARNING''"
proof -
  show "level_name G_LOG_LEVEL_ERROR = ''ERROR''"
    using level_scan_stop [of 0 G_LOG_LEVEL_ERROR]
    by (simp add: level_name_def log_levels_def G_LOG_LEVEL_ERROR_def)
  have "level_scan G_LOG_LEVEL_WARNING 0 = level_scan G_LOG_LEVEL_WARNING 2"
    by (rule level_scan_skip)
      (simp_all add: G_LOG_LEVEL_WARNING_def G_LOG_LEVEL_ERROR_def less_Suc_eq numeral_2_eq_2)
  also have "\<dots> = 2"
    by (rule level_scan_stop) (simp_all add: G_LOG_LEVEL_WARNING_def G_LOG_LEVEL_ERROR_def)
  finally show "level_name G_LOG_LEVEL_WARNING = ''WARNING''"
    by (simp add: level_name_def log_levels_def)
qed

text \<open>
  C1, as the code has it. For a log event of ERROR severity, or carrying the fatal flag,
  \<open>log_handler\<close> raises the Lua error \<open><domain>-<SEVERITY> **: <message>\<close> (a NULL domain
  prints as \<open>(null)\<close>) and does not forward the event to \<open>g_log_default_handler\<close>:
  \<open>luaL_error\<close> leaves the handler before the forwarding step, whether or not a custom
  handler is installed and whatever it answered. The default handler is given the events
  that raise nothing and are not marked handled; with no custom handler these are the
  events without the ERROR bit and the fatal flag.
\<close>

theorem fatal_event_raises_without_forwarding:
  "(log_level AND (G_LOG_FLAG_FATAL OR G_LOG_LEVEL_ERROR) \<noteq> 0 \<longrightarrow>
      fst (log_handler impl L log_domain log_level message)
        = Inl (LuaError (fmt_s log_domain @ ''-'' @ level_name log_level @ '' **: '' @ message))
      \<and> g_log_default_handled (snd (log_handler impl L log_domain log_level message))
          = g_log_default_handled L)
   \<and> (log_level AND (G_LOG_FLAG_FATAL OR G_LOG_LEVEL_ERROR) = 0 \<and> reg_log_handler L = LNil \<longrightarrow>
      log_handler impl L log_domain log_level message
        = (Inr (), g_log_default_handler L log_domain log_level message))"
proof (intro conjI impI)
  assume fatal: "log_level AND (G_LOG_FLAG_FATAL OR G_LOG_LEVEL_ERROR) \<noteq> 0"
  define L2 where "L2 = lua_push (lua_push L lgi_registry_table) (reg_log_handler (lua_push L lgi_registry_table))"
  obtain handled throw L3
    where c: "call_log_handler impl L2 log_domain (level_name log_level) message = ((handled, throw), L3)"
    by (metis prod.exhaust)
  have r: "log_handler impl L log_domain log_level message
          = (Inl (LuaError (fmt_s log_domain @ ''-'' @ level_name log_level @ '' **: '' @ message)),
             lua_pop L3 2)"
    unfolding log_handler_def Let_def L2_def [symmetric] c prod.case
    using fatal by (simp add: luaL_error_def lua_then_def)
  have "g_log_default_handled L3 = g_log_default_handled L2"
    using call_log_handler_frame [of impl L2 log_domain "level_name log_level" message] c by simp
  then have "g_log_default_handled (lua_pop L3 2) = g_log_default_handled L"
    by (simp add: lua_pop_def L2_def lua_push_def)
  with r show "fst (log_handler impl L log_domain log_level message)
        = Inl (LuaError (fmt_s log_domain @ ''-'' @ level_name log_level @ '' **: '' @ message))"
    and "g_log_default_handled (snd (log_handler impl L log_domain log_level message))
          = g_log_default_handled L"
    by simp_all
next
  assume a: "log_level AND (G_LOG_FLAG_FATAL OR G_LOG_LEVEL_ERROR) = 0 \<and> reg_log_handler L = LNil"
  then show "log_handler impl L log_domain log_level message
        = (Inr (), g_log_default_handler L log_domain log_level message)"
    by (simp add: log_handler_without_handler)
qed

text \<open>
  A WARNING with no custom handler is forwarded. A WARNING with the fatal flag and a NULL
  domain raises, and nothing is forwarded, although the handler (function 1) answered.
\<close>

theorem fatal_event_raises_without_forwarding_witness:
  "log_handler demo_impl demo_state (Some ''app'') G_LOG_LEVEL_WARNING ''low memory''
     = (Inr (), demo_state\<lparr>g_log_default_handled := [(Some ''app'', G_LOG_LEVEL_WARNING, ''low memory'')]\<rparr>)
   \<and> fst (log_handler demo_impl (demo_state\<lparr>reg_log_handler := LFunction 1\<rparr>) None
            (G_LOG_LEVEL_WARNING OR G_LOG_FLAG_FATAL) ''low memory'')
       = Inl (LuaError (''(null)-WARNING **: low memory''))
   \<and> g_log_default_handled (snd (log_handler demo_impl (demo_state\<lparr>reg_log_handler := LFunction 1\<rparr>)
            None (G_LOG_LEVEL_WARNING OR G_LOG_FLAG_FATAL) ''low memory'')) = []"
proof -
  have w: "G_LOG_LEVEL_WARNING AND (G_LOG_FLAG_FATAL OR G_LOG_LEVEL_ERROR) = 0"
    by (simp add: G_LOG_LEVEL_WARNING_def G_LOG_FLAG_FATAL_def G_LOG_LEVEL_ERROR_def)
  have f: "(G_LOG_LEVEL_WARNING OR G_LOG_FLAG_FATAL) AND (G_LOG_FLAG_FATAL OR G_LOG_LEVEL_ERROR) \<noteq> 0"
    by (simp add: G_LOG_LEVEL_WARNING_def G_LOG_FLAG_FATAL_def G_LOG_LEVEL_ERROR_def)
  have n: "level_name (G_LOG_LEVEL_WARNING OR G_LOG_FLAG_FATAL) = ''WARNING''"
  proof -
    have "level_scan (G_LOG_LEVEL_WARNING OR G_LOG_FLAG_FATAL) 0
            = level_scan (G_LOG_LEVEL_WARNING OR G_LOG_FLAG_FATAL) 2"
      by (rule level_scan_skip)
        (simp_all add: G_LOG_LEVEL_WARNING_def G_LOG_FLAG_FATAL_def G_LOG_LEVEL_ERROR_def
          less_Suc_eq numeral_2_eq_2)
    also have "\<dots> = 2"
      by (rule level_scan_stop)
        (simp_all add: G_LOG_LEVEL_WARNING_def G_LOG_FLAG_FATAL_def G_LOG_LEVEL_ERROR_def)
    finally show ?thesis by (simp add: level_name_def log_levels_def)
  qed
  from fatal_event_raises_without_forwarding [of G_LOG_LEVEL_WARNING demo_impl demo_state "Some ''app''" "''low memory''"]
    fatal_event_raises_without_forwarding [of "G_LOG_LEVEL_WARNING OR G_LOG_FLAG_FATAL" demo_impl
      "demo_state\<lparr>reg_log_handler := LFunction 1\<rparr>" None "''low memory''"]
    w f n
  show ?thesis
    by (simp add: g_log_default_handler_def fmt_s_def) (simp add: demo_state_def)
qed

text \<open>
  C1 as stated fails: the ERROR event of domain \<open>app\<close> with no custom handler raises
  \<open>app-ERROR **: low memory\<close>, and the default handler has been given nothing.
\<close>

theorem error_event_not_forwarded_counterexample:
  "fst (log_handler demo_impl demo_state (Some ''app'') G_LOG_LEVEL_ERROR ''low memory'')
     = Inl (LuaError ''app-ERROR **: low memory'')
   \<and> g_log_default_handled
        (snd (log_handler demo_impl demo_state (Some ''app'') G_LOG_LEVEL_ERROR ''low memory'')) = []"
proof -
  have h: "reg_log_handler demo_state = LNil" by (simp add: demo_state_def)
  have e: "G_LOG_LEVEL_ERROR AND (G_LOG_FLAG_FATAL OR G_LOG_LEVEL_ERROR) \<noteq> 0"
    by (simp add: G_LOG_FLAG_FATAL_def G_LOG_LEVEL_ERROR_def)
  have "log_handler demo_impl demo_state (Some ''app'') G_LOG_LEVEL_ERROR ''low memory''
          = (Inl (LuaError ''app-ERROR **: low memory''), demo_state)"
    using e by (simp add: log_handler_without_handler [OF h] demo_level_names fmt_s_def)
  then show ?thesis by (simp add: demo_state_def)
qed

lemma lua_isnil_top: "stack L = xs @ [v] \<Longrightarrow> lua_isnil L (- 1) \<longleftrightarrow> v = LNil"
  by (cases v) (simp_all add: lua_isnil_def lua_type_def lua_index_top LUA_TNIL_def
      LUA_TBOOLEAN_def LUA_TLIGHTUSERDATA_def LUA_TNUMBER_def LUA_TSTRING_def LUA_TTABLE_def
      LUA_TFUNCTION_def LUA_TUSERDATA_def LUA_TTHREAD_def)

lemma call_log_handler_raises:
  assumes stk: "stack L2 = base @ [t, h]" and h: "h \<noteq> LNil"
    and fails: "lua_call impl h [case log_domain of None \<Rightarrow> LNil | Some d \<Rightarrow> LString d,
                                 LString level, LString message] = CallFails ERRRUN err"
  shows "fst (call_log_handler impl L2 log_domain level message) = (False, True)"
proof -
  from stk have "stack L2 = (base @ [t]) @ [h]" by simp
  from lua_isnil_top [OF this] h have nn: "\<not> lua_isnil L2 (- 1)" by simp
  let ?L3 = "lua_pushstring (lua_pushstring (lua_pushstring L2 log_domain) (Some level)) (Some message)"
  have "stack ?L3 = base @ [t, h, case log_domain of None \<Rightarrow> LNil | Some d \<Rightarrow> LString d,
                            LString level, LString message]"
    by (simp add: lua_pushstring_def lua_push_def stk)
  from pcall_three [OF this, of impl] fails
  have "fst (lua_pcall impl ?L3 3) = LUA_ERRRUN" by simp
  then obtain L4 where pc: "lua_pcall impl ?L3 3 = (LUA_ERRRUN, L4)"
    by (cases "lua_pcall impl ?L3 3") simp
  show ?thesis
    unfolding call_log_handler_def Let_def pc prod.case
    by (simp add: nn LUA_ERRRUN_def)
qed

text \<open>
  C4. When a custom handler is installed and raises an error while \<open>log_handler\<close> calls it
  (the protected call returns \<open>LUA_ERRRUN\<close>), \<open>log_handler\<close> raises the Lua error
  \<open><domain>-<SEVERITY> **: <message>\<close> whatever the level of the event. (The other failure
  statuses of a protected call, out of memory and a failing error handler, are not errors
  raised by the handler; the \<open>switch\<close> leaves them to its default branch.)
\<close>

theorem failing_handler_escalates:
  assumes h: "reg_log_handler L \<noteq> LNil"
    and fails: "lua_call impl (reg_log_handler L)
                  [case log_domain of None \<Rightarrow> LNil | Some d \<Rightarrow> LString d,
                   LString (level_name log_level), LString message] = CallFails ERRRUN err"
  shows "fst (log_handler impl L log_domain log_level message)
           = Inl (LuaError (fmt_s log_domain @ ''-'' @ level_name log_level @ '' **: '' @ message))"
proof -
  define L2 where "L2 = lua_push (lua_push L lgi_registry_table) (reg_log_handler (lua_push L lgi_registry_table))"
  have stk: "stack L2 = stack L @ [lgi_registry_table, reg_log_handler L]"
    by (simp add: L2_def lua_push_def)
  obtain handled throw L3
    where c: "call_log_handler impl L2 log_domain (level_name log_level) message = ((handled, throw), L3)"
    by (metis prod.exhaust)
  from call_log_handler_raises [OF stk h fails] c have throw by simp
  then show ?thesis
    unfolding log_handler_def Let_def L2_def [symmetric] c prod.case
    by (simp add: luaL_error_def lua_then_def)
qed

text \<open>A WARNING, not fatal by itself, with function 2 as handler, which raises.\<close>

theorem failing_handler_escalates_witness:
  "fst (log_handler demo_impl (demo_state\<lparr>reg_log_handler := LFunction 2\<rparr>) (Some ''app'')
          G_LOG_LEVEL_WARNING ''low memory'')
     = Inl (LuaError ''app-WARNING **: low memory'')"
proof -
  have h: "reg_log_handler (demo_state\<lparr>reg_log_handler := LFunction 2\<rparr>) \<noteq> LNil" by simp
  have f: "lua_call demo_impl (reg_log_handler (demo_state\<lparr>reg_log_handler := LFunction 2\<rparr>))
             [case Some ''app'' of None \<Rightarrow> LNil | Some d \<Rightarrow> LString d,
              LString (level_name G_LOG_LEVEL_WARNING), LString ''low memory'']
           = CallFails ERRRUN (LString ''boom'')"
    by (simp add: demo_impl_def)
  from failing_handler_escalates [OF h f] show ?thesis
    by (simp add: demo_level_names fmt_s_def)
qed

text \<open>
  For comparison, the default branch of the \<open>switch\<close>: a protected call that fails with
  another status is not escalated; the event counts as not handled and, unless it is
  fatal by itself, goes to the default handler.
\<close>

lemma handler_failure_of_other_status:
  assumes h: "reg_log_handler L \<noteq> LNil"
    and fails: "lua_call impl (reg_log_handler L)
                  [case log_domain of None \<Rightarrow> LNil | Some d \<Rightarrow> LString d,
                   LString (level_name log_level), LString message] = CallFails st err"
    and other: "st \<noteq> ERRRUN"
    and mild: "log_level AND (G_LOG_FLAG_FATAL OR G_LOG_LEVEL_ERROR) = 0"
  shows "fst (log_handler impl L log_domain log_level message) = Inr ()
    \<and> g_log_default_handled (snd (log_handler impl L log_domain log_level message))
        = g_log_default_handled L @ [(log_domain, log_level, message)]"
proof -
  define L2 where "L2 = lua_push (lua_push L lgi_registry_table) (reg_log_handler (lua_push L lgi_registry_table))"
  have stk: "stack L2 = stack L @ [lgi_registry_table, reg_log_handler L]"
    by (simp add: L2_def lua_push_def)
  then have "stack L2 = (stack L @ [lgi_registry_table]) @ [reg_log_handler L]" by simp
  from lua_isnil_top [OF this] h have nn: "\<not> lua_isnil L2 (- 1)" by simp
  let ?L3 = "lua_pushstring (lua_pushstring (lua_pushstring L2 log_domain)
               (Some (level_name log_level))) (Some message)"
  have "stack ?L3 = stack L @ [lgi_registry_table, reg_log_handler L,
                       case log_domain of None \<Rightarrow> LNil | Some d \<Rightarrow> LString d,
                       LString (level_name log_level), LString message]"
    by (simp add: lua_pushstring_def lua_push_def stk)
  from pcall_three [OF this, of impl] fails
  obtain L4 where pc: "lua_pcall impl ?L3 3 = (status_code st, L4)"
    and d4: "g_log_default_handled L4 = g_log_default_handled L"
    by (simp add: lua_pushstring_def lua_push_def L2_def)
  have codes: "status_code st \<noteq> 0" "status_code st \<noteq> LUA_ERRRUN"
    using other by (cases st; simp add: LUA_ERRRUN_def LUA_ERRMEM_def LUA_ERRERR_def)+
  have c: "call_log_handler impl L2 log_domain (level_name log_level) message = ((False, False), L4)"
    unfolding call_log_handler_def Let_def pc prod.case
    by (simp add: nn codes)
  have r: "log_handler impl L log_domain log_level message
             = (Inr (), g_log_default_handler (lua_pop L4 2) log_domain log_level message)"
    unfolding log_handler_def Let_def L2_def [symmetric] c prod.case
    using mild by (simp add: lua_then_def)
  show ?thesis
    by (simp add: r g_log_default_handler_def lua_pop_def d4)
qed

section \<open>Emitting a log event from Lua\<close>

text \<open>
  The call \<open>log (domain, level, message)\<close> with a string for the domain and the message:
  the stack of \<open>lgi_glib_log\<close> holds the three arguments.
\<close>

lemma checkstring_string:
  "slot_of L narg = Some i \<Longrightarrow> stack L ! i = LString s
     \<Longrightarrow> luaL_checkstring impl L narg = (Inr (c_str s), L)"
  by (simp add: luaL_checkstring_def)

lemma slots_of_three:
  assumes "stack L = [a, b, c]"
  shows "slot_of L 1 = Some 0" "slot_of L 2 = Some 1" "slot_of L 3 = Some 2"
  using assms by (simp_all add: slot_of_def)

lemma noneornil_second:
  assumes "stack L = [a, b, c]"
  shows "lua_isnoneornil L 2 \<longleftrightarrow> b = LNil"
  using assms
  by (cases b) (simp_all add: lua_isnoneornil_def lua_type_def lua_index_def slot_of_def
      LUA_TNIL_def LUA_TBOOLEAN_def LUA_TLIGHTUSERDATA_def LUA_TNUMBER_def LUA_TSTRING_def
      LUA_TTABLE_def LUA_TFUNCTION_def LUA_TUSERDATA_def LUA_TTHREAD_def)

lemma option_index_levels:
  "option_index log_levels name 0 =
     (if name = ''ERROR'' then Some 0 else if name = ''CRITICAL'' then Some 1
      else if name = ''WARNING'' then Some 2 else if name = ''MESSAGE'' then Some 3
      else if name = ''INFO'' then Some 4 else if name = ''DEBUG'' then Some 5
      else if name = ''???'' then Some 6 else None)"
  by (simp add: log_levels_def)

lemma glib_log_with_level:
  assumes stk: "stack L = [LString d, LString s, LString m]"
  shows "lgi_glib_log impl L =
     (case option_index log_levels (c_str s) 0 of
        Some i \<Rightarrow> lua_then (g_log impl L (c_str d) (push_bit (i + 2) 1) (c_str m))
                    (\<lambda>u L'. (Inr 0, L'))
      | None \<Rightarrow> (Inl (ArgError 2 (''invalid option '' @ [CHR 0x27] @ c_str s @ [CHR 0x27])), L))"
proof -
  note sl = slots_of_three [OF stk]
  have 1: "luaL_checkstring impl L 1 = (Inr (c_str d), L)"
    by (rule checkstring_string [OF sl(1)]) (simp add: stk)
  have 2: "luaL_checkstring impl L 2 = (Inr (c_str s), L)"
    by (rule checkstring_string [OF sl(2)]) (simp add: stk)
  have 3: "luaL_checkstring impl L 3 = (Inr (c_str m), L)"
    by (rule checkstring_string [OF sl(3)]) (simp add: stk)
  have n: "\<not> lua_isnoneornil L 2"
    by (simp add: noneornil_second [OF stk])
  show ?thesis
  proof (cases "option_index log_levels (c_str s) 0")
    case None
    then show ?thesis
      by (simp add: lgi_glib_log_def 1 lua_then_def luaL_checkoption_def n 2)
  next
    case (Some i)
    then have "lgi_glib_log impl L
        = lua_then (Inr (c_str m), L) (\<lambda>message L3.
            lua_then (g_log impl L3 (c_str d) (push_bit (i + 2) 1) message) (\<lambda>u L4. (Inr 0, L4)))"
      by (simp add: lgi_glib_log_def 1 lua_then_def luaL_checkoption_def n 2 3)
    with Some show ?thesis by (simp add: lua_then_def)
  qed
qed

lemma glib_log_default_level:
  assumes stk: "stack L = [LString d, LNil, LString m]"
  shows "lgi_glib_log impl L
           = lua_then (g_log impl L (c_str d) G_LOG_LEVEL_DEBUG (c_str m)) (\<lambda>u L'. (Inr 0, L'))"
proof -
  note sl = slots_of_three [OF stk]
  have 1: "luaL_checkstring impl L 1 = (Inr (c_str d), L)"
    by (rule checkstring_string [OF sl(1)]) (simp add: stk)
  have 3: "luaL_checkstring impl L 3 = (Inr (c_str m), L)"
    by (rule checkstring_string [OF sl(3)]) (simp add: stk)
  have n: "lua_isnoneornil L 2"
    by (simp add: noneornil_second [OF stk])
  have d: "log_levels ! 5 = ''DEBUG''" by (simp add: log_levels_def)
  have "lgi_glib_log impl L
        = lua_then (Inr (c_str m), L) (\<lambda>message L3.
            lua_then (g_log impl L3 (c_str d) (push_bit (5 + 2) 1) message) (\<lambda>u L4. (Inr 0, L4)))"
    by (simp add: lgi_glib_log_def 1 lua_then_def luaL_checkoption_def n d 3 option_index_levels)
  then show ?thesis by (simp add: lua_then_def G_LOG_LEVEL_DEBUG_def)
qed

lemma g_log_without_handler:
  assumes "reg_log_handler L = LNil"
  shows "lua_then (g_log impl L log_domain log_level message) (\<lambda>u L'. (Inr (0::int), L'))
           = (if log_level AND (G_LOG_FLAG_FATAL OR G_LOG_LEVEL_ERROR) \<noteq> 0
              then (Inl (LuaError (log_domain @ ''-'' @ level_name log_level @ '' **: '' @ message)),
                    L\<lparr>g_log_emitted := g_log_emitted L @ [(log_domain, log_level, message)]\<rparr>)
              else (Inr 0,
                    L\<lparr>g_log_emitted := g_log_emitted L @ [(log_domain, log_level, message)],
                      g_log_default_handled :=
                        g_log_default_handled L @ [(Some log_domain, log_level, message)]\<rparr>))"
proof -
  let ?L = "L\<lparr>g_log_emitted := g_log_emitted L @ [(log_domain, log_level, message)]\<rparr>"
  have h: "reg_log_handler ?L = LNil" using assms by simp
  show ?thesis
    unfolding g_log_def log_handler_without_handler [OF h]
    by (simp add: lua_then_def fmt_s_def g_log_default_handler_def)
qed

lemma c_str_plain:
  "c_str ''app'' = ''app''" "c_str ''m'' = ''m''" "c_str ''???'' = ''???''"
  "c_str ''FATAL'' = ''FATAL''" "c_str ''INFO'' = ''INFO''" "c_str ''ERROR'' = ''ERROR''"
  by (simp_all add: c_str_def)

lemma level_name_user: "level_name 256 = ''???''"
proof -
  have "level_scan 256 0 = level_scan 256 6"
    by (rule level_scan_skip)
      (simp_all add: G_LOG_LEVEL_ERROR_def less_Suc_eq eval_nat_numeral)
  then show ?thesis by (simp add: level_name_def level_scan_end log_levels_def)
qed

text \<open>
  C6, as the code has it. \<open>lgi_glib_log\<close> validates the level against the whole array
  \<open>log_levels\<close>, which has seven entries: the six level names and the sentinel \<open>???\<close>. The
  level is compared as a C string, the text up to its first NUL. A level that is nil
  (omitted) stands for DEBUG. A level whose text is entry \<open>i\<close> of the seven is accepted and
  the event is given to \<open>g_log\<close> at level \<open>1 << (i + 2)\<close>, so \<open>???\<close> is accepted and gives
  \<open>1 << 8\<close>; the call returns 0 if \<open>g_log\<close> returns, and raises what \<open>log_handler\<close> raises
  otherwise. A level whose text is none of the seven fails with the argument error
  \<open>invalid option\<close>, and nothing is emitted. With no custom handler installed, an accepted
  call returns 0 with the event forwarded to the default handler, except at level ERROR,
  where it ends in the Lua error of \<open>log_handler\<close>.
\<close>

theorem log_level_argument:
  assumes stk: "stack L = [LString d, lv, LString m]"
  shows "(lv = LNil \<longrightarrow>
            lgi_glib_log impl L
              = lua_then (g_log impl L (c_str d) G_LOG_LEVEL_DEBUG (c_str m)) (\<lambda>u L'. (Inr 0, L')))
    \<and> (\<forall>s i. lv = LString s \<and> i < 7
           \<and> c_str s = [''ERROR'', ''CRITICAL'', ''WARNING'', ''MESSAGE'', ''INFO'', ''DEBUG'', ''???''] ! i
         \<longrightarrow> lgi_glib_log impl L
               = lua_then (g_log impl L (c_str d) (push_bit (i + 2) 1) (c_str m))
                   (\<lambda>u L'. (Inr 0, L')))
    \<and> (\<forall>s. lv = LString s
           \<and> c_str s \<notin> {''ERROR'', ''CRITICAL'', ''WARNING'', ''MESSAGE'', ''INFO'', ''DEBUG'', ''???''}
         \<longrightarrow> lgi_glib_log impl L
               = (Inl (ArgError 2 (''invalid option '' @ [CHR 0x27] @ c_str s @ [CHR 0x27])), L))
    \<and> (\<forall>log_domain log_level message. reg_log_handler L = LNil \<longrightarrow>
          lua_then (g_log impl L log_domain log_level message) (\<lambda>u L'. (Inr (0::int), L'))
           = (if log_level AND (G_LOG_FLAG_FATAL OR G_LOG_LEVEL_ERROR) \<noteq> 0
              then (Inl (LuaError (log_domain @ ''-'' @ level_name log_level @ '' **: '' @ message)),
                    L\<lparr>g_log_emitted := g_log_emitted L @ [(log_domain, log_level, message)]\<rparr>)
              else (Inr 0,
                    L\<lparr>g_log_emitted := g_log_emitted L @ [(log_domain, log_level, message)],
                      g_log_default_handled :=
                        g_log_default_handled L @ [(Some log_domain, log_level, message)]\<rparr>)))"
proof (intro conjI allI impI)
  assume "lv = LNil"
  with stk show "lgi_glib_log impl L
      = lua_then (g_log impl L (c_str d) G_LOG_LEVEL_DEBUG (c_str m)) (\<lambda>u L'. (Inr 0, L'))"
    by (simp add: glib_log_default_level)
next
  fix s i
  assume a: "lv = LString s \<and> i < 7
    \<and> c_str s = [''ERROR'', ''CRITICAL'', ''WARNING'', ''MESSAGE'', ''INFO'', ''DEBUG'', ''???''] ! i"
  then have "i = 0 \<or> i = 1 \<or> i = 2 \<or> i = 3 \<or> i = 4 \<or> i = 5 \<or> i = 6" by arith
  with a have "option_index log_levels (c_str s) 0 = Some i"
    by (auto simp: option_index_levels)
  with a stk show "lgi_glib_log impl L
      = lua_then (g_log impl L (c_str d) (push_bit (i + 2) 1) (c_str m)) (\<lambda>u L'. (Inr 0, L'))"
    by (simp add: glib_log_with_level)
next
  fix s
  assume a: "lv = LString s
    \<and> c_str s \<notin> {''ERROR'', ''CRITICAL'', ''WARNING'', ''MESSAGE'', ''INFO'', ''DEBUG'', ''???''}"
  then have "option_index log_levels (c_str s) 0 = None"
    by (simp add: option_index_levels)
  with a stk show "lgi_glib_log impl L
      = (Inl (ArgError 2 (''invalid option '' @ [CHR 0x27] @ c_str s @ [CHR 0x27])), L)"
    by (simp add: glib_log_with_level)
next
  fix log_domain log_level message
  assume "reg_log_handler L = LNil"
  then show "lua_then (g_log impl L log_domain log_level message) (\<lambda>u L'. (Inr (0::int), L'))
           = (if log_level AND (G_LOG_FLAG_FATAL OR G_LOG_LEVEL_ERROR) \<noteq> 0
              then (Inl (LuaError (log_domain @ ''-'' @ level_name log_level @ '' **: '' @ message)),
                    L\<lparr>g_log_emitted := g_log_emitted L @ [(log_domain, log_level, message)]\<rparr>)
              else (Inr 0,
                    L\<lparr>g_log_emitted := g_log_emitted L @ [(log_domain, log_level, message)],
                      g_log_default_handled :=
                        g_log_default_handled L @ [(Some log_domain, log_level, message)]\<rparr>))"
    by (rule g_log_without_handler)
qed

text \<open>
  With no custom handler: a nil level (DEBUG, returns 0), the level ERROR (raises) and
  the level FATAL, which is not in the array.
\<close>

theorem log_level_argument_witness:
  "lgi_glib_log demo_impl (demo_state\<lparr>stack := [LString ''app'', LNil, LString ''m'']\<rparr>)
     = (Inr 0, demo_state\<lparr>stack := [LString ''app'', LNil, LString ''m''],
                           g_log_emitted := [(''app'', G_LOG_LEVEL_DEBUG, ''m'')],
                           g_log_default_handled := [(Some ''app'', G_LOG_LEVEL_DEBUG, ''m'')]\<rparr>)
   \<and> lgi_glib_log demo_impl (demo_state\<lparr>stack := [LString ''app'', LString ''ERROR'', LString ''m'']\<rparr>)
     = (Inl (LuaError ''app-ERROR **: m''),
        demo_state\<lparr>stack := [LString ''app'', LString ''ERROR'', LString ''m''],
                     g_log_emitted := [(''app'', G_LOG_LEVEL_ERROR, ''m'')]\<rparr>)
   \<and> lgi_glib_log demo_impl (demo_state\<lparr>stack := [LString ''app'', LString ''FATAL'', LString ''m'']\<rparr>)
     = (Inl (ArgError 2 (''invalid option '' @ [CHR 0x27] @ ''FATAL'' @ [CHR 0x27])),
        demo_state\<lparr>stack := [LString ''app'', LString ''FATAL'', LString ''m'']\<rparr>)"
proof -
  let ?L1 = "demo_state\<lparr>stack := [LString ''app'', LNil, LString ''m'']\<rparr>"
  let ?L2 = "demo_state\<lparr>stack := [LString ''app'', LString ''ERROR'', LString ''m'']\<rparr>"
  let ?L3 = "demo_state\<lparr>stack := [LString ''app'', LString ''FATAL'', LString ''m'']\<rparr>"
  have 1: "stack ?L1 = [LString ''app'', LNil, LString ''m'']" by simp
  have 2: "stack ?L2 = [LString ''app'', LString ''ERROR'', LString ''m'']" by simp
  have 3: "stack ?L3 = [LString ''app'', LString ''FATAL'', LString ''m'']" by simp
  have h1: "reg_log_handler ?L1 = LNil" and h2: "reg_log_handler ?L2 = LNil"
    by (simp_all add: demo_state_def)
  have md: "G_LOG_LEVEL_DEBUG AND (G_LOG_FLAG_FATAL OR G_LOG_LEVEL_ERROR) = 0"
    by (simp add: G_LOG_LEVEL_DEBUG_def G_LOG_FLAG_FATAL_def G_LOG_LEVEL_ERROR_def)
  have me: "G_LOG_LEVEL_ERROR AND (G_LOG_FLAG_FATAL OR G_LOG_LEVEL_ERROR) \<noteq> 0"
    by (simp add: G_LOG_FLAG_FATAL_def G_LOG_LEVEL_ERROR_def)
  note t1 = log_level_argument [OF 1, of demo_impl]
  note t2 = log_level_argument [OF 2, of demo_impl]
  note t3 = log_level_argument [OF 3, of demo_impl]
  have a: "lgi_glib_log demo_impl ?L1
     = (Inr 0, demo_state\<lparr>stack := [LString ''app'', LNil, LString ''m''],
                           g_log_emitted := [(''app'', G_LOG_LEVEL_DEBUG, ''m'')],
                           g_log_default_handled := [(Some ''app'', G_LOG_LEVEL_DEBUG, ''m'')]\<rparr>)"
    using t1 [THEN conjunct1]
      t1 [THEN conjunct2, THEN conjunct2, THEN conjunct2, rule_format, OF h1,
        of "''app''" G_LOG_LEVEL_DEBUG "''m''"] md
    by (simp add: c_str_plain) (simp add: demo_state_def)
  have e4: "push_bit (0 + 2) (1::int) = G_LOG_LEVEL_ERROR" by (simp add: G_LOG_LEVEL_ERROR_def)
  have b: "lgi_glib_log demo_impl ?L2
     = (Inl (LuaError ''app-ERROR **: m''),
        demo_state\<lparr>stack := [LString ''app'', LString ''ERROR'', LString ''m''],
                     g_log_emitted := [(''app'', G_LOG_LEVEL_ERROR, ''m'')]\<rparr>)"
    using t2 [THEN conjunct2, THEN conjunct1, rule_format, of "''ERROR''" 0]
      t2 [THEN conjunct2, THEN conjunct2, THEN conjunct2, rule_format, OF h2,
        of "''app''" G_LOG_LEVEL_ERROR "''m''"] me
    unfolding e4
    by (simp add: c_str_plain demo_level_names) (simp add: demo_state_def)
  have c: "lgi_glib_log demo_impl ?L3
     = (Inl (ArgError 2 (''invalid option '' @ [CHR 0x27] @ ''FATAL'' @ [CHR 0x27])), ?L3)"
    using t3 [THEN conjunct2, THEN conjunct2, THEN conjunct1, rule_format, of "''FATAL''"]
    by (simp add: c_str_plain)
  from a b c show ?thesis by simp
qed

text \<open>
  C6 as stated fails: \<open>???\<close> is outside the six level names, and the call succeeds,
  emitting an event at level 256 that reaches the default handler.
\<close>

theorem sentinel_level_accepted_counterexample:
  "lgi_glib_log demo_impl (demo_state\<lparr>stack := [LString ''app'', LString ''???'', LString ''m'']\<rparr>)
     = (Inr 0, demo_state\<lparr>stack := [LString ''app'', LString ''???'', LString ''m''],
                           g_log_emitted := [(''app'', 256, ''m'')],
                           g_log_default_handled := [(Some ''app'', 256, ''m'')]\<rparr>)"
proof -
  let ?L = "demo_state\<lparr>stack := [LString ''app'', LString ''???'', LString ''m'']\<rparr>"
  have stk: "stack ?L = [LString ''app'', LString ''???'', LString ''m'']" by simp
  have h: "reg_log_handler ?L = LNil" by (simp add: demo_state_def)
  have m: "(256::int) AND (G_LOG_FLAG_FATAL OR G_LOG_LEVEL_ERROR) = 0"
    by (simp add: G_LOG_FLAG_FATAL_def G_LOG_LEVEL_ERROR_def)
  have "lgi_glib_log demo_impl ?L
          = lua_then (g_log demo_impl ?L ''app'' 256 ''m'') (\<lambda>u L'. (Inr 0, L'))"
    using glib_log_with_level [OF stk, of demo_impl]
    by (simp add: c_str_plain option_index_levels)
  also have "\<dots> = (Inr 0, ?L\<lparr>g_log_emitted := g_log_emitted ?L @ [(''app'', 256, ''m'')],
                      g_log_default_handled :=
                        g_log_default_handled ?L @ [(Some ''app'', 256, ''m'')]\<rparr>)"
    using g_log_without_handler [OF h, of demo_impl "''app''" 256 "''m''"] m by simp
  finally show ?thesis by (simp add: demo_state_def)
qed

section \<open>Round trip through a box\<close>











text \<open>
  Where \<open>g_value_init\<close> refuses, on a box that has a type or for a type without a value,
  the box stays as it was.
\<close>

lemma g_value_init_refused:
  "g_type val \<noteq> G_TYPE_INVALID \<or> \<not> G_TYPE_IS_VALUE e t
     \<Longrightarrow> snd (snd (g_value_init e L val t)) = val"
  by (auto simp: g_value_init_def split: prod.splits)









end
